theory Spec2Isabelle
  imports Main "HOL-Library.Word" "HOL-Library.Signed_Division"
begin

section \<open>Persisted settings (internal/pingen/config.go)\<close>

text \<open>
  Go's \<^verbatim>\<open>string\<close> is a byte sequence and is modelled as \<open>string\<close>; \<^verbatim>\<open>int64\<close> is a
  \<open>64 word\<close> read as two's complement by \<open>sint\<close>.
\<close>

type_synonym int64 = "64 word"

record Config =
  Env :: string
  APIBase :: string
  IdentityBase :: string
  OrganisationID :: string
  AccessToken :: string
  AccessTokenExpiresAt :: int64
  ClientID :: string
  ClientSecret :: string

text \<open>The zero value \<^verbatim>\<open>Config{}\<close>.\<close>

definition Config_zero :: Config where
  "Config_zero = \<lparr> Env = [], APIBase = [], IdentityBase = [], OrganisationID = [],
     AccessToken = [], AccessTokenExpiresAt = 0, ClientID = [], ClientSecret = [] \<rparr>"

text \<open>\<^verbatim>\<open>MergeConfig\<close>: a copy of \<open>base\<close>, each field overwritten when the override sets it.\<close>

definition MergeConfig :: "Config \<Rightarrow> Config \<Rightarrow> Config" where
  "MergeConfig base override =
    (let merged = base;
         merged = (if Env override \<noteq> [] then merged\<lparr>Env := Env override\<rparr> else merged);
         merged = (if APIBase override \<noteq> [] then merged\<lparr>APIBase := APIBase override\<rparr> else merged);
         merged = (if IdentityBase override \<noteq> []
                   then merged\<lparr>IdentityBase := IdentityBase override\<rparr> else merged);
         merged = (if OrganisationID override \<noteq> []
                   then merged\<lparr>OrganisationID := OrganisationID override\<rparr> else merged);
         merged = (if AccessToken override \<noteq> []
                   then merged\<lparr>AccessToken := AccessToken override\<rparr> else merged);
         merged = (if AccessTokenExpiresAt override \<noteq> 0
                   then merged\<lparr>AccessTokenExpiresAt := AccessTokenExpiresAt override\<rparr> else merged);
         merged = (if ClientID override \<noteq> [] then merged\<lparr>ClientID := ClientID override\<rparr> else merged);
         merged = (if ClientSecret override \<noteq> []
                   then merged\<lparr>ClientSecret := ClientSecret override\<rparr> else merged)
     in merged)"

section \<open>The precedence rule\<close>

text \<open>
  The value a field takes under the rule of precedence, written from the rule: the highest
  layer when it is set (differs from \<open>unset\<close>), else the middle layer when it is set, else
  the lowest.
\<close>

definition pick3 :: "'a \<Rightarrow> 'a \<Rightarrow> 'a \<Rightarrow> 'a \<Rightarrow> 'a" where
  "pick3 unset low mid high = (if high \<noteq> unset then high else if mid \<noteq> unset then mid else low)"

section \<open>String helpers of the standard library\<close>

text \<open>\<^verbatim>\<open>strings.HasPrefix\<close> and \<^verbatim>\<open>strings.TrimPrefix\<close>.\<close>

definition HasPrefix :: "string \<Rightarrow> string \<Rightarrow> bool" where
  "HasPrefix s p = (take (length p) s = p)"

definition TrimPrefix :: "string \<Rightarrow> string \<Rightarrow> string" where
  "TrimPrefix s p = (if HasPrefix s p then drop (length p) s else s)"

text \<open>
  \<^verbatim>\<open>strings.TrimSpace\<close> removes leading and trailing white space as \<^verbatim>\<open>unicode.IsSpace\<close>
  defines it. On the bytes of a string these are the UTF-8 encodings below: the six ASCII
  characters, U+0085, U+00A0, U+1680, U+2000 to U+200A, U+2028, U+2029, U+202F, U+205F and
  U+3000. A leading (trailing) rune is white space exactly when the string starts (ends) with
  one of these byte sequences.
\<close>

definition space_seqs :: "string list" where
  "space_seqs =
    [[CHR 0x09], [CHR 0x0A], [CHR 0x0B], [CHR 0x0C], [CHR 0x0D], [CHR 0x20],
     [CHR 0xC2, CHR 0x85], [CHR 0xC2, CHR 0xA0], [CHR 0xE1, CHR 0x9A, CHR 0x80],
     [CHR 0xE2, CHR 0x80, CHR 0x80], [CHR 0xE2, CHR 0x80, CHR 0x81],
     [CHR 0xE2, CHR 0x80, CHR 0x82], [CHR 0xE2, CHR 0x80, CHR 0x83],
     [CHR 0xE2, CHR 0x80, CHR 0x84], [CHR 0xE2, CHR 0x80, CHR 0x85],
     [CHR 0xE2, CHR 0x80, CHR 0x86], [CHR 0xE2, CHR 0x80, CHR 0x87],
     [CHR 0xE2, CHR 0x80, CHR 0x88], [CHR 0xE2, CHR 0x80, CHR 0x89],
     [CHR 0xE2, CHR 0x80, CHR 0x8A], [CHR 0xE2, CHR 0x80, CHR 0xA8],
     [CHR 0xE2, CHR 0x80, CHR 0xA9], [CHR 0xE2, CHR 0x80, CHR 0xAF],
     [CHR 0xE2, CHR 0x81, CHR 0x9F], [CHR 0xE3, CHR 0x80, CHR 0x80]]"

text \<open>The number of bytes of the white-space rune a string starts with, 0 when there is none.\<close>

definition space_prefix :: "string list \<Rightarrow> string \<Rightarrow> nat" where
  "space_prefix seqs s = (case find (HasPrefix s) seqs of None \<Rightarrow> 0 | Some q \<Rightarrow> length q)"

function trim_front :: "string list \<Rightarrow> string \<Rightarrow> string" where
  "trim_front seqs s =
     (if space_prefix seqs s = 0 \<or> s = [] then s else trim_front seqs (drop (space_prefix seqs s) s))"
  by pat_completeness auto
termination
  by (relation "measure (\<lambda>(seqs, s). length s)") auto

definition TrimSpace :: "string \<Rightarrow> string" where
  "TrimSpace s = rev (trim_front (map rev space_seqs) (rev (trim_front space_seqs s)))"

text \<open>\<^verbatim>\<open>strings.Join\<close>.\<close>

fun Join :: "string list \<Rightarrow> string \<Rightarrow> string" where
  "Join [] sep = []"
| "Join [x] sep = x"
| "Join (x # y # ys) sep = x @ sep @ Join (y # ys) sep"

text \<open>\<^verbatim>\<open>fmt.Sprintf("%d", n)\<close>: the decimal digits, with a minus sign below zero.\<close>

definition digit_char :: "int \<Rightarrow> char" where
  "digit_char d = ''0123456789'' ! nat (d mod 10)"

function digits :: "int \<Rightarrow> string" where
  "digits n = (if n < 10 then [digit_char n] else digits (n div 10) @ [digit_char n])"
  by pat_completeness auto
termination
  by (relation "measure nat") auto

definition Sprintf_d :: "int \<Rightarrow> string" where
  "Sprintf_d n = (if n < 0 then CHR ''-'' # digits (- n) else digits n)"

section \<open>Errors\<close>

text \<open>
  One type for Go's \<^verbatim>\<open>error\<close> values. \<open>ErrNotExist\<close> stands for every error of the
  operating system for which \<^verbatim>\<open>errors.Is(err, os.ErrNotExist)\<close> holds, \<open>OSError\<close> for its other
  errors; \<open>SyntaxError\<close> and \<open>UnmarshalTypeError\<close> are the errors of \<^verbatim>\<open>json.Unmarshal\<close>;
  \<open>Errorf\<close> carries the message of a \<^verbatim>\<open>fmt.Errorf\<close>; \<open>APIError\<close> is the struct of api.go
  (message, status, request id); \<open>NetError\<close> is a failure of the HTTP transport.
\<close>

datatype error =
    ErrNotExist
  | OSError string
  | SyntaxError
  | UnmarshalTypeError
  | Errorf string
  | APIError string int string
  | NetError string

section \<open>JSON values and the syntax of encoding/json\<close>

text \<open>
  The values \<^verbatim>\<open>json.Unmarshal\<close> stores in an \<^verbatim>\<open>any\<close>. A number keeps its literal text. An
  object keeps its members in the order of the document; a \<^verbatim>\<open>map[string]any\<close> is such a member
  list read by \<open>mget\<close>, where the last member of a name wins, as in Go's decoder.
\<close>

datatype json =
    JNull
  | JBool bool
  | JNumber string
  | JString string
  | JArray "json list"
  | JObject "(string \<times> json) list"

type_synonym gomap = "(string \<times> json) list"

definition mget :: "gomap \<Rightarrow> string \<Rightarrow> json option" where
  "mget m k = map_of (rev m) k"

text \<open>\<^verbatim>\<open>m[k] = v\<close> on a map, also used for \<^verbatim>\<open>map[string]string\<close>.\<close>

definition mput :: "('k \<times> 'v) list \<Rightarrow> 'k \<Rightarrow> 'v \<Rightarrow> ('k \<times> 'v) list" where
  "mput m k v = filter (\<lambda>kv. fst kv \<noteq> k) m @ [(k, v)]"

definition is_ws :: "char \<Rightarrow> bool" where
  "is_ws c = (c = CHR 0x20 \<or> c = CHR 0x09 \<or> c = CHR 0x0A \<or> c = CHR 0x0D)"

definition skip_ws :: "string \<Rightarrow> string" where
  "skip_ws s = dropWhile is_ws s"

definition is_digit :: "char \<Rightarrow> bool" where
  "is_digit c = (c \<in> set ''0123456789'')"

definition scan_exp :: "string \<Rightarrow> string \<Rightarrow> (string \<times> string) option" where
  "scan_exp lit s =
     (case s of
        [] \<Rightarrow> Some (lit, [])
      | c # r \<Rightarrow>
          if c = CHR ''e'' \<or> c = CHR ''E'' then
            (let sg = (case r of [] \<Rightarrow> [] | d # _ \<Rightarrow> if d = CHR ''+'' \<or> d = CHR ''-'' then [d] else []);
                 r1 = drop (length sg) r;
                 ds = takeWhile is_digit r1
             in if ds = [] then None else Some (lit @ [c] @ sg @ ds, dropWhile is_digit r1))
          else Some (lit, s))"

definition scan_frac :: "string \<Rightarrow> string \<Rightarrow> (string \<times> string) option" where
  "scan_frac lit s =
     (case s of
        [] \<Rightarrow> Some (lit, [])
      | c # r \<Rightarrow>
          if c = CHR ''.'' then
            (let ds = takeWhile is_digit r
             in if ds = [] then None else scan_exp (lit @ [c] @ ds) (dropWhile is_digit r))
          else scan_exp lit s)"

text \<open>A number literal: an optional minus, \<open>0\<close> or digits without a leading zero, a fraction, an exponent.\<close>

definition scan_number :: "string \<Rightarrow> (string \<times> string) option" where
  "scan_number s =
     (let sg = (case s of [] \<Rightarrow> [] | c # _ \<Rightarrow> if c = CHR ''-'' then [c] else []);
          s1 = drop (length sg) s
      in case s1 of
           [] \<Rightarrow> None
         | c # r \<Rightarrow>
             if c = CHR ''0'' then scan_frac (sg @ [c]) r
             else if is_digit c then scan_frac (sg @ takeWhile is_digit s1) (dropWhile is_digit s1)
             else None)"

definition hex_val :: "char \<Rightarrow> int option" where
  "hex_val c =
     (case find (\<lambda>(d, n). d = c)
        (zip ''0123456789abcdefABCDEF'' ([0 .. 15] @ [10 .. 15])) of
        None \<Rightarrow> None
      | Some (d, n) \<Rightarrow> Some n)"

definition hex4 :: "string \<Rightarrow> int option" where
  "hex4 s =
     (case map hex_val (take 4 s) of
        [Some a, Some b, Some c, Some d] \<Rightarrow> Some (a * 4096 + b * 256 + c * 16 + d)
      | _ \<Rightarrow> None)"

text \<open>\<^verbatim>\<open>utf8.EncodeRune\<close> of a code point below \<open>0x110000\<close>.\<close>

definition utf8_encode :: "int \<Rightarrow> string" where
  "utf8_encode cp =
     (if cp < 0x80 then [char_of cp]
      else if cp < 0x800 then [char_of (0xC0 + cp div 64), char_of (0x80 + cp mod 64)]
      else if cp < 0x10000 then
        [char_of (0xE0 + cp div 4096), char_of (0x80 + cp div 64 mod 64), char_of (0x80 + cp mod 64)]
      else
        [char_of (0xF0 + cp div 262144), char_of (0x80 + cp div 4096 mod 64),
         char_of (0x80 + cp div 64 mod 64), char_of (0x80 + cp mod 64)])"

definition is_surrogate :: "int \<Rightarrow> bool" where
  "is_surrogate cp = (0xD800 \<le> cp \<and> cp < 0xE000)"

text \<open>
  The code point of a \<open>\\u\<close> escape whose four hex digits gave \<open>cp\<close>, and how many bytes of
  the rest a low surrogate took: a surrogate pair combines, a lone surrogate is U+FFFD.
\<close>

definition escape_rune :: "int \<Rightarrow> string \<Rightarrow> int \<times> nat" where
  "escape_rune cp rest =
     (if is_surrogate cp then
        (case (if take 2 rest = [CHR 0x5C, CHR ''u''] then hex4 (drop 2 rest) else None) of
           Some lo \<Rightarrow>
             if cp < 0xDC00 \<and> 0xDC00 \<le> lo \<and> lo < 0xE000
             then (0x10000 + (cp - 0xD800) * 1024 + (lo - 0xDC00), 6)
             else (0xFFFD, 0)
         | None \<Rightarrow> (0xFFFD, 0))
      else (cp, 0))"

definition simple_escape :: "char \<Rightarrow> char option" where
  "simple_escape e =
     (if e = CHR 0x22 \<or> e = CHR 0x5C \<or> e = CHR ''/'' then Some e
      else if e = CHR ''b'' then Some (CHR 0x08)
      else if e = CHR ''f'' then Some (CHR 0x0C)
      else if e = CHR ''n'' then Some (CHR 0x0A)
      else if e = CHR ''r'' then Some (CHR 0x0D)
      else if e = CHR ''t'' then Some (CHR 0x09)
      else None)"

text \<open>
  \<^verbatim>\<open>utf8.DecodeRune\<close> at the head of a text: the number of bytes of the UTF-8 sequence that
  stands there, or \<open>0\<close> where Go gives \<^verbatim>\<open>RuneError\<close> for the first byte. The first byte fixes
  the length and the range of the second byte; the later bytes are from \<open>0x80\<close> to \<open>0xBF\<close>.
\<close>

definition continuation :: "int list \<Rightarrow> nat \<Rightarrow> int \<Rightarrow> int \<Rightarrow> bool" where
  "continuation bs k lo hi = (k < length bs \<and> lo \<le> bs ! k \<and> bs ! k \<le> hi)"

definition utf8_size :: "string \<Rightarrow> nat" where
  "utf8_size s =
     (case map of_char (take 4 s) of
        [] \<Rightarrow> 0
      | b0 # bs \<Rightarrow>
          if b0 < 0x80 then 1
          else if 0xC2 \<le> b0 \<and> b0 \<le> 0xDF then
            (if continuation bs 0 0x80 0xBF then 2 else 0)
          else if 0xE0 \<le> b0 \<and> b0 \<le> 0xEF then
            (if continuation bs 0 (if b0 = 0xE0 then 0xA0 else 0x80) (if b0 = 0xED then 0x9F else 0xBF) \<and>
                continuation bs 1 0x80 0xBF
             then 3 else 0)
          else if 0xF0 \<le> b0 \<and> b0 \<le> 0xF4 then
            (if continuation bs 0 (if b0 = 0xF0 then 0x90 else 0x80) (if b0 = 0xF4 then 0x8F else 0xBF) \<and>
                continuation bs 1 0x80 0xBF \<and> continuation bs 2 0x80 0xBF
             then 4 else 0)
          else 0)"

text \<open>
  The text of a string literal after its opening quote: the decoded bytes and the rest after
  the closing quote. A control character ends the scan with an error. From \<open>0x80\<close> on, a
  UTF-8 sequence is kept, and a byte that starts none becomes U+FFFD.
\<close>

fun scan_string :: "string \<Rightarrow> string \<Rightarrow> (string \<times> string) option" where
  "scan_string [] acc = None"
| "scan_string (c # cs) acc =
     (if c = CHR 0x22 then Some (acc, cs)
      else if of_char c < (0x20 :: int) then None
      else if c = CHR 0x5C then
        (case cs of
           [] \<Rightarrow> None
         | e # r \<Rightarrow>
             if e = CHR ''u'' then
               (case hex4 r of
                  None \<Rightarrow> None
                | Some cp \<Rightarrow>
                    if length r < 4 then None
                    else scan_string (drop (4 + snd (escape_rune cp (drop 4 r))) r)
                           (acc @ utf8_encode (fst (escape_rune cp (drop 4 r)))))
             else (case simple_escape e of None \<Rightarrow> None | Some x \<Rightarrow> scan_string r (acc @ [x])))
      else if of_char c < (0x80 :: int) then scan_string cs (acc @ [c])
      else
        (case utf8_size (c # cs) of
           0 \<Rightarrow> scan_string cs (acc @ utf8_encode 0xFFFD)
         | Suc k \<Rightarrow> scan_string (drop k cs) (acc @ c # take k cs)))"

text \<open>
  The parser of one value, on a budget of calls: every second call takes at least one byte of
  the input, so the budget \<open>2 * length s + 2\<close> of \<open>parse_json\<close> is never spent (lemma
  \<open>parse_json_budget\<close> below). The second argument is the number of arrays and objects that
  are open; the scanner of encoding/json refuses to open more than 10000.
\<close>

definition maxNestingDepth :: int where
  "maxNestingDepth = 10000"

fun parse_value :: "nat \<Rightarrow> int \<Rightarrow> string \<Rightarrow> (json \<times> string) option"
  and parse_elements :: "nat \<Rightarrow> int \<Rightarrow> string \<Rightarrow> json list \<Rightarrow> (json \<times> string) option"
  and parse_members :: "nat \<Rightarrow> int \<Rightarrow> string \<Rightarrow> (string \<times> json) list \<Rightarrow> (json \<times> string) option"
where
  "parse_value 0 depth s = None"
| "parse_value (Suc n) depth s =
     (case s of
        [] \<Rightarrow> None
      | c # cs \<Rightarrow>
          if c = CHR ''{'' then
            (if maxNestingDepth \<le> depth then None
             else
               (case skip_ws cs of
                  [] \<Rightarrow> None
                | d # r \<Rightarrow>
                    if d = CHR ''}'' then Some (JObject [], r)
                    else parse_members n (depth + 1) (d # r) []))
          else if c = CHR ''['' then
            (if maxNestingDepth \<le> depth then None
             else
               (case skip_ws cs of
                  [] \<Rightarrow> None
                | d # r \<Rightarrow>
                    if d = CHR '']'' then Some (JArray [], r)
                    else parse_elements n (depth + 1) (d # r) []))
          else if c = CHR 0x22 then
            (case scan_string cs [] of None \<Rightarrow> None | Some (str, r) \<Rightarrow> Some (JString str, r))
          else if HasPrefix s ''null'' then Some (JNull, drop 4 s)
          else if HasPrefix s ''true'' then Some (JBool True, drop 4 s)
          else if HasPrefix s ''false'' then Some (JBool False, drop 5 s)
          else (case scan_number s of None \<Rightarrow> None | Some (lit, r) \<Rightarrow> Some (JNumber lit, r)))"
| "parse_elements 0 depth s acc = None"
| "parse_elements (Suc n) depth s acc =
     (case parse_value n depth s of
        None \<Rightarrow> None
      | Some (v, r) \<Rightarrow>
          (case skip_ws r of
             [] \<Rightarrow> None
           | d # r' \<Rightarrow>
               if d = CHR '','' then parse_elements n depth (skip_ws r') (acc @ [v])
               else if d = CHR '']'' then Some (JArray (acc @ [v]), r')
               else None))"
| "parse_members 0 depth s acc = None"
| "parse_members (Suc n) depth s acc =
     (case s of
        [] \<Rightarrow> None
      | q # cs \<Rightarrow>
          if q \<noteq> CHR 0x22 then None
          else
            (case scan_string cs [] of
               None \<Rightarrow> None
             | Some (k, r) \<Rightarrow>
                 (case skip_ws r of
                    [] \<Rightarrow> None
                  | d # r' \<Rightarrow>
                      if d \<noteq> CHR '':'' then None
                      else
                        (case parse_value n depth (skip_ws r') of
                           None \<Rightarrow> None
                         | Some (v, r'') \<Rightarrow>
                             (case skip_ws r'' of
                                [] \<Rightarrow> None
                              | e # r3 \<Rightarrow>
                                  if e = CHR '','' then
                                    parse_members n depth (skip_ws r3) (acc @ [(k, v)])
                                  else if e = CHR ''}'' then Some (JObject (acc @ [(k, v)]), r3)
                                  else None)))))"

text \<open>A whole document: one value between white space, or \<open>None\<close> for a syntax error.\<close>

definition parse_json :: "string \<Rightarrow> json option" where
  "parse_json s =
     (case parse_value (2 * length s + 2) 0 (skip_ws s) of
        None \<Rightarrow> None
      | Some (v, r) \<Rightarrow> if skip_ws r = [] then Some v else None)"

section \<open>Numbers and time\<close>

text \<open>
  A number literal as a decimal: the pair \<open>(m, e)\<close> stands for \<open>m * 10 ^ e\<close>.
\<close>

definition digits_val :: "string \<Rightarrow> int" where
  "digits_val ds = foldl (\<lambda>n c. 10 * n + (of_char c - 48)) 0 ds"

definition literal_decimal :: "string \<Rightarrow> int \<times> int" where
  "literal_decimal lit =
     (let neg = (take 1 lit = ''-'');
          b = (if neg then drop 1 lit else lit);
          ip = takeWhile is_digit b;
          r1 = dropWhile is_digit b;
          dot = (take 1 r1 = ''.'');
          fp = (if dot then takeWhile is_digit (drop 1 r1) else []);
          r2 = (if dot then dropWhile is_digit (drop 1 r1) else r1);
          r3 = drop 1 r2;
          ex = (if take 1 r3 = ''-'' then - digits_val (drop 1 r3)
                else if take 1 r3 = ''+'' then digits_val (drop 1 r3)
                else digits_val r3);
          m = digits_val (ip @ fp)
      in (if neg then - m else m, ex - int (length fp)))"

text \<open>The whole number a literal denotes, if it denotes one.\<close>

definition literal_int :: "string \<Rightarrow> int option" where
  "literal_int lit =
     (case literal_decimal lit of (m, e) \<Rightarrow>
        if 0 \<le> e then Some (m * 10 ^ nat e)
        else if m mod 10 ^ nat (- e) = 0 then Some (m div 10 ^ nat (- e))
        else None)"

text \<open>
  \<^verbatim>\<open>strconv.ParseFloat\<close> fails on a literal that rounds to an infinity, which is one of
  magnitude \<open>2 ^ 1024 - 2 ^ 970\<close> or more; decoding such a number into an \<^verbatim>\<open>any\<close> is an error.
\<close>

definition literal_too_large :: "string \<Rightarrow> bool" where
  "literal_too_large lit =
     (case literal_decimal lit of (m, e) \<Rightarrow>
        if 0 \<le> e then 2 ^ 1024 - 2 ^ 970 \<le> \<bar>m\<bar> * 10 ^ nat e
        else (2 ^ 1024 - 2 ^ 970) * 10 ^ nat (- e) \<le> \<bar>m\<bar>)"

fun numbers_ok :: "json \<Rightarrow> bool" where
  "numbers_ok (JNumber lit) = (\<not> literal_too_large lit)"
| "numbers_ok (JArray xs) = list_all numbers_ok xs"
| "numbers_ok (JObject kvs) = list_all numbers_ok (map snd kvs)"
| "numbers_ok v = True"

text \<open>
  \<^verbatim>\<open>json.Unmarshal(data, &m)\<close> for a \<^verbatim>\<open>map[string]any\<close> that is nil before the call: a syntax
  error, a type error for a value that is neither an object nor \<^verbatim>\<open>null\<close> or for a number out
  of range, the members of an object, and for \<^verbatim>\<open>null\<close> the nil map (\<open>None\<close>) without an
  error.
\<close>

definition Unmarshal_map :: "string \<Rightarrow> error + gomap option" where
  "Unmarshal_map data =
     (case parse_json data of
        None \<Rightarrow> Inl SyntaxError
      | Some JNull \<Rightarrow> Inr None
      | Some (JObject kvs) \<Rightarrow>
          if numbers_ok (JObject kvs) then Inr (Some kvs) else Inl UnmarshalTypeError
      | Some _ \<Rightarrow> Inl UnmarshalTypeError)"

text \<open>
  \<^verbatim>\<open>int64(f)\<close> for the \<^verbatim>\<open>float64\<close> of a literal: exact for a whole number of magnitude at
  most \<open>2 ^ 53\<close>, which the \<^verbatim>\<open>float64\<close> holds exactly; left to the platform otherwise.
\<close>

definition float64_to_int64 :: "(string \<Rightarrow> int64) \<Rightarrow> string \<Rightarrow> int64" where
  "float64_to_int64 conv lit =
     (case literal_int lit of
        Some v \<Rightarrow> if \<bar>v\<bar> \<le> 2 ^ 53 then word_of_int v else conv lit
      | None \<Rightarrow> conv lit)"

text \<open>
  A reading of the clock is its Unix seconds and the nanoseconds within the second.
  \<^verbatim>\<open>Time.Add\<close> splits the duration, a count of nanoseconds, by truncating division and carries
  the nanoseconds. (Outside the years the clock of a machine shows, Go's seconds saturate;
  the model's wrap around.)
\<close>

record go_time =
  unix_sec :: int64
  nsec :: int

definition time_Add :: "go_time \<Rightarrow> int64 \<Rightarrow> go_time" where
  "time_Add t d =
     (let dsec = sint d sdiv 1000000000;
          ns = nsec t + sint d smod 1000000000;
          dsec = (if ns \<ge> 1000000000 then dsec + 1 else if ns < 0 then dsec - 1 else dsec);
          ns = (if ns \<ge> 1000000000 then ns - 1000000000 else if ns < 0 then ns + 1000000000 else ns)
      in \<lparr> unix_sec = unix_sec t + word_of_int dsec, nsec = ns \<rparr>)"

text \<open>\<^verbatim>\<open>time.Duration(n) * time.Second\<close>, a product of two \<^verbatim>\<open>int64\<close> that wraps around.\<close>

definition seconds :: "int64 \<Rightarrow> int64" where
  "seconds n = n * 1000000000"

section \<open>The platform and the state of a run\<close>

text \<open>
  What the program takes from the operating system and from library packages whose result
  no property below depends on is a field of \<open>platform\<close>: the process environment, path
  arithmetic, the struct decoder and the encoders of encoding/json (the syntax check is
  \<open>parse_json\<close>), the file system calls that can fail, the clock, the conversion to
  \<^verbatim>\<open>int64\<close> of a \<^verbatim>\<open>float64\<close> that is not a whole number of at most 53 bits, the texts of
  the library's errors, \<open>render\<close> for the lines \<^verbatim>\<open>fmt\<close> prints of a response, net/url and the HTTP
  transport. The k-th reading of the clock is \<open>time_Now p k\<close>; the answer to a request is
  \<open>http_Do p k req\<close> when k requests went out before it. \<open>os_Open\<close> is \<^verbatim>\<open>os.Open\<close>
  followed by \<^verbatim>\<open>Stat\<close>: an error of either, or the size of the file.
\<close>

datatype body =
    NoBody
  | FormBody "(string \<times> string) list"
  | JSONBody string
  | FileBody string int

record http_request =
  req_method :: string
  req_url :: string
  req_headers :: "(string \<times> string) list"
  req_body :: body
  req_timeout :: int64

text \<open>
  The outcome of \<^verbatim>\<open>client.Do\<close> followed by \<^verbatim>\<open>io.ReadAll\<close>: a transport error, or a
  status code, the value of the response header \<^verbatim>\<open>X-Request-Id\<close>, and the body or the error of
  reading it.
\<close>

datatype http_result =
    DoError error
  | Response int string "error + string"

record url =
  url_rest :: string
  url_query :: "string \<rightharpoonup> string list"

record platform =
  os_Getenv :: "string \<Rightarrow> string"
  os_UserHomeDir :: "error + string"
  filepath_Join :: "string list \<Rightarrow> string"
  filepath_Dir :: "string \<Rightarrow> string"
  filepath_Base :: "string \<Rightarrow> string"
  decode_Config :: "json \<Rightarrow> error + Config"
  MarshalIndent_Config :: "Config \<Rightarrow> error + string"
  MarshalIndent :: "json \<Rightarrow> error + string"
  Marshal :: "json \<Rightarrow> error + string"
  os_Stat :: "string \<Rightarrow> error option"
  os_MkdirAll :: "string \<Rightarrow> error option"
  os_OpenFile :: "string \<Rightarrow> error option"
  file_Write :: "string \<Rightarrow> string \<Rightarrow> nat \<times> error option"
  os_Open :: "string \<Rightarrow> error + int"
  time_Now :: "nat \<Rightarrow> go_time"
  float_conv :: "string \<Rightarrow> int64"
  error_text :: "error \<Rightarrow> string"
  render :: "string \<Rightarrow> json \<Rightarrow> string"
  url_Parse :: "string \<Rightarrow> error + url"
  url_String :: "url \<Rightarrow> string"
  http_NewRequest :: "string \<Rightarrow> string \<Rightarrow> error option"
  http_Do :: "nat \<Rightarrow> http_request \<Rightarrow> http_result"

text \<open>
  What a run changes: the files \<^verbatim>\<open>os.ReadFile\<close> reads, the number of clock readings, the
  requests sent so far (latest last), and the lines written to the two output streams.
\<close>

record state =
  files :: "string \<Rightarrow> error + string"
  ticks :: nat
  calls :: "http_request list"
  stdout :: "string list"
  stderr :: "string list"

definition Println :: "state \<Rightarrow> string \<Rightarrow> state" where
  "Println s line = s\<lparr>stdout := stdout s @ [line]\<rparr>"

definition Eprintln :: "state \<Rightarrow> string \<Rightarrow> state" where
  "Eprintln s line = s\<lparr>stderr := stderr s @ [line]\<rparr>"

text \<open>\<^verbatim>\<open>time.Now()\<close>.\<close>

definition Now :: "platform \<Rightarrow> state \<Rightarrow> go_time \<times> state" where
  "Now p s = (time_Now p (ticks s), s\<lparr>ticks := Suc (ticks s)\<rparr>)"

text \<open>\<^verbatim>\<open>printError\<close> of part_000.\<close>

definition printError :: "state \<Rightarrow> string \<Rightarrow> int \<Rightarrow> string \<Rightarrow> state" where
  "printError s message status requestID =
     (let parts = [message];
          parts = (if status \<noteq> 0 then parts @ [''(HTTP '' @ Sprintf_d status @ '')''] else parts);
          parts = (if requestID \<noteq> [] then parts @ [''request_id='' @ requestID] else parts)
      in s\<lparr>stderr := stderr s @ [Join parts '' '']\<rparr>)"

text \<open>\<^verbatim>\<open>printUsage\<close> prints a fixed help text; the model keeps its first line.\<close>

definition printUsage :: "state \<Rightarrow> state" where
  "printUsage s = Println s ''pingen-cli - Send letters through Pingen from the command line.''"

section \<open>Loading and saving (internal/pingen/config.go)\<close>

definition ConfigPath :: "platform \<Rightarrow> error + string" where
  "ConfigPath p =
     (let override = os_Getenv p ''PINGEN_CONFIG_PATH''
      in if override \<noteq> [] then Inr override
         else
           (case os_UserHomeDir p of
              Inl err \<Rightarrow> Inl err
            | Inr home \<Rightarrow>
                (let xdg = os_Getenv p ''XDG_CONFIG_HOME'';
                     xdg = (if xdg = [] then filepath_Join p [home, ''.config''] else xdg)
                 in Inr (filepath_Join p [xdg, ''pingen'', ''config.json'']))))"

text \<open>\<^verbatim>\<open>json.Unmarshal(data, &cfg)\<close>: the syntax check, then the decoder of the struct.\<close>

definition Unmarshal_Config :: "platform \<Rightarrow> string \<Rightarrow> error + Config" where
  "Unmarshal_Config p data =
     (case parse_json data of None \<Rightarrow> Inl SyntaxError | Some v \<Rightarrow> decode_Config p v)"

text \<open>\<^verbatim>\<open>LoadConfig\<close> returns the configuration, whether the file exists, and the error.\<close>

definition LoadConfig :: "platform \<Rightarrow> state \<Rightarrow> string \<Rightarrow> Config \<times> bool \<times> error option" where
  "LoadConfig p s path =
     (case files s path of
        Inl err \<Rightarrow> if err = ErrNotExist then (Config_zero, False, None) else (Config_zero, False, Some err)
      | Inr data \<Rightarrow>
          (case Unmarshal_Config p data of
             Inl err \<Rightarrow> (Config_zero, True, Some err)
           | Inr cfg \<Rightarrow> (cfg, True, None)))"

text \<open>
  \<^verbatim>\<open>SaveConfig\<close>. Opening the file truncates it; \<^verbatim>\<open>Write\<close> reports how many bytes it wrote
  and an error or none.
\<close>

definition SaveConfig :: "platform \<Rightarrow> state \<Rightarrow> string \<Rightarrow> Config \<Rightarrow> error option \<times> state" where
  "SaveConfig p s path cfg =
     (case os_MkdirAll p (filepath_Dir p path) of
        Some err \<Rightarrow> (Some err, s)
      | None \<Rightarrow>
          (case MarshalIndent_Config p cfg of
             Inl err \<Rightarrow> (Some err, s)
           | Inr payload \<Rightarrow>
               (let payload = payload @ [CHR 0x0A]
                in case os_OpenFile p path of
                     Some err \<Rightarrow> (Some err, s)
                   | None \<Rightarrow>
                       (case file_Write p path payload of (n, err) \<Rightarrow>
                          (err, s\<lparr>files := (files s)(path := Inr (take n payload))\<rparr>)))))"

section \<open>Global options and the start of a run (part_000)\<close>

record globalOptions =
  showHelp :: bool
  showVersion :: bool
  env :: string
  apiBase :: string
  identityBase :: string
  organisationID :: string
  accessToken :: string
  clientID :: string
  clientSecret :: string
  clientSecretFile :: string
  timeout :: int64
  jsonOutput :: bool
  plain :: bool
  quiet :: bool
  verbose :: bool
  dryRun :: bool

record appContext =
  global :: globalOptions
  configPath :: string
  configLoaded :: bool
  settings :: Config

text \<open>
  \<^verbatim>\<open>parseGlobal\<close>. The flag package is not modelled: \<open>parsed\<close> is what \<^verbatim>\<open>fs.Parse(args)\<close>
  leaves, the options it filled in, the arguments that remain, and its error or none.
\<close>

definition parseGlobal ::
  "state \<Rightarrow> globalOptions \<times> string list \<times> error option \<Rightarrow>
     (globalOptions \<times> string \<times> string list \<times> bool) \<times> state" where
  "parseGlobal s parsed =
     (case parsed of (g, remaining, err) \<Rightarrow>
        if err \<noteq> None then ((g, [], [], False), s)
        else if showHelp g then ((g, [], [], False), printUsage s)
        else
          (case remaining of
             [] \<Rightarrow> ((g, [], [], True), s)
           | sub # rest \<Rightarrow> ((g, sub, rest, True), s)))"

definition configFromEnv :: "platform \<Rightarrow> Config" where
  "configFromEnv p =
     (let cfg = Config_zero;
          cfg = (let v = os_Getenv p ''PINGEN_ENV'' in if v \<noteq> [] then cfg\<lparr>Env := v\<rparr> else cfg);
          cfg = (let v = os_Getenv p ''PINGEN_API_BASE'' in if v \<noteq> [] then cfg\<lparr>APIBase := v\<rparr> else cfg);
          cfg = (let v = os_Getenv p ''PINGEN_IDENTITY_BASE''
                 in if v \<noteq> [] then cfg\<lparr>IdentityBase := v\<rparr> else cfg);
          cfg = (let v = os_Getenv p ''PINGEN_ORG_ID''
                 in if v \<noteq> [] then cfg\<lparr>OrganisationID := v\<rparr> else cfg);
          cfg = (let v = os_Getenv p ''PINGEN_ACCESS_TOKEN''
                 in if v \<noteq> [] then cfg\<lparr>AccessToken := v\<rparr> else cfg);
          cfg = (let v = os_Getenv p ''PINGEN_CLIENT_ID'' in if v \<noteq> [] then cfg\<lparr>ClientID := v\<rparr> else cfg);
          cfg = (let v = os_Getenv p ''PINGEN_CLIENT_SECRET''
                 in if v \<noteq> [] then cfg\<lparr>ClientSecret := v\<rparr> else cfg)
      in cfg)"

definition configFromGlobal :: "globalOptions \<Rightarrow> Config" where
  "configFromGlobal g =
     Config_zero\<lparr> Env := env g, APIBase := apiBase g, IdentityBase := identityBase g,
       OrganisationID := organisationID g, AccessToken := accessToken g,
       ClientID := clientID g, ClientSecret := clientSecret g \<rparr>"

definition applyDefaultBases :: "Config \<Rightarrow> Config" where
  "applyDefaultBases cfg =
     (let cfg = (if APIBase cfg = [] then
                   (if Env cfg = ''production'' then cfg\<lparr>APIBase := ''https://api.pingen.com''\<rparr>
                    else cfg\<lparr>APIBase := ''https://api-staging.pingen.com''\<rparr>)
                 else cfg);
          cfg = (if IdentityBase cfg = [] then
                   (if Env cfg = ''production'' then cfg\<lparr>IdentityBase := ''https://identity.pingen.com''\<rparr>
                    else cfg\<lparr>IdentityBase := ''https://identity-staging.pingen.com''\<rparr>)
                 else cfg)
      in cfg)"

text \<open>
  \<^verbatim>\<open>run\<close> in four parts, in the order of the source. A part that ends the run gives the exit
  code and the message for \<^verbatim>\<open>printError\<close>.

  Lines 54 to 57: the settings merged from the file, the environment and the command line.
\<close>

definition run_merge :: "platform \<Rightarrow> globalOptions \<Rightarrow> Config \<Rightarrow> Config" where
  "run_merge p g cfg =
     (let envCfg = configFromEnv p;
          cliCfg = configFromGlobal g;
          st = MergeConfig cfg envCfg;
          st = MergeConfig st cliCfg
      in st)"

text \<open>Lines 59 to 66: the client secret file.\<close>

definition run_secret_file :: "state \<Rightarrow> globalOptions \<Rightarrow> Config \<Rightarrow> (int \<times> string) + Config" where
  "run_secret_file s g st =
     (if clientSecretFile g \<noteq> [] then
        (case files s (clientSecretFile g) of
           Inl err \<Rightarrow> Inl (1, ''failed to read client secret file'')
         | Inr secret \<Rightarrow> Inr (st\<lparr>ClientSecret := TrimSpace secret\<rparr>))
      else Inr st)"

text \<open>Lines 68 to 75: the environment and the base URLs.\<close>

definition run_env :: "Config \<Rightarrow> (int \<times> string) + Config" where
  "run_env st =
     (let st = (if Env st = [] then st\<lparr>Env := ''staging''\<rparr> else st)
      in if Env st \<noteq> ''staging'' \<and> Env st \<noteq> ''production''
         then Inl (2, ''invalid env (use staging or production)'')
         else Inr (applyDefaultBases st))"

text \<open>
  The whole of \<^verbatim>\<open>run\<close> up to its \<^verbatim>\<open>switch\<close>. \<open>Dispatch sub ctx args\<close> is the call of the
  handler of the subcommand \<open>sub\<close>; \<open>Exit code\<close> is a return before any handler is called.
\<close>

datatype outcome = Exit int | Dispatch string appContext "string list"

definition is_load_failure :: "error option \<Rightarrow> bool" where
  "is_load_failure cfgErr = (case cfgErr of None \<Rightarrow> False | Some e \<Rightarrow> e \<noteq> ErrNotExist)"

definition run ::
  "platform \<Rightarrow> state \<Rightarrow> globalOptions \<times> string list \<times> error option \<Rightarrow> outcome \<times> state" where
  "run p s0 parsed =
     (case parseGlobal s0 parsed of ((g, subcommand, subargs, ok), s) \<Rightarrow>
        if \<not> ok then (Exit 2, s)
        else if showVersion g then (Exit 0, Println s ''pingen-cli 0.1.0'')
        else if subcommand = [] then (Exit 2, printUsage s)
        else
          (let g = (if plain g then g\<lparr>jsonOutput := False\<rparr> else g)
           in case ConfigPath p of
                Inl err \<Rightarrow> (Exit 1, printError s ''failed to resolve config path'' 0 [])
              | Inr path \<Rightarrow>
                  (case LoadConfig p s path of (cfg, cfgExists, cfgErr) \<Rightarrow>
                     if is_load_failure cfgErr
                     then (Exit 1, printError s ''failed to load config'' 0 [])
                     else
                       (case run_secret_file s g (run_merge p g cfg) of
                          Inl (code, msg) \<Rightarrow> (Exit code, printError s msg 0 [])
                        | Inr st \<Rightarrow>
                            (case run_env st of
                               Inl (code, msg) \<Rightarrow> (Exit code, printError s msg 0 [])
                             | Inr st \<Rightarrow>
                                 (let ctx = \<lparr> global = g, configPath = path,
                                              configLoaded = cfgExists, settings = st \<rparr>
                                  in if subcommand \<in> {''auth'', ''config'', ''org'', ''letters''}
                                     then (Dispatch subcommand ctx subargs, s)
                                     else (Exit 2, printUsage s)))))))"

section \<open>List parameters and the query string\<close>

text \<open>
  \<^verbatim>\<open>buildListParams\<close> of part_000. A \<^verbatim>\<open>map[string]string\<close> is its list of entries, one for
  each key.
\<close>

definition buildListParams ::
  "state \<Rightarrow> int \<Rightarrow> int \<Rightarrow> string \<Rightarrow> string \<Rightarrow> string \<Rightarrow> string \<Rightarrow> string \<Rightarrow> string \<Rightarrow>
     (string \<times> string) list" where
  "buildListParams s page limit sort' filter' query include fields' resource =
     (let params = [];
          params = (if page > 0 then mput params ''page[number]'' (Sprintf_d page) else params);
          params = (if limit > 0 then mput params ''page[limit]'' (Sprintf_d limit) else params);
          params = (if sort' \<noteq> [] then mput params ''sort'' sort' else params);
          params =
            (if filter' \<noteq> [] then
               (let filter' =
                      (if HasPrefix filter' ''@'' then
                         (case files s (TrimPrefix filter' ''@'') of
                            Inr content \<Rightarrow> TrimSpace content
                          | Inl err \<Rightarrow> filter')
                       else filter')
                in mput params ''filter'' filter')
             else params);
          params = (if query \<noteq> [] then mput params ''q'' query else params);
          params = (if include \<noteq> [] then mput params ''include'' include else params);
          params = (if fields' \<noteq> [] then mput params (''fields['' @ resource @ '']'') fields' else params)
      in params)"

text \<open>The value \<^verbatim>\<open>buildListParams\<close> stores under \<open>filter\<close> for a filter argument.\<close>

definition resolved_filter :: "state \<Rightarrow> string \<Rightarrow> string" where
  "resolved_filter s f =
     (if HasPrefix f ''@'' then
        (case files s (TrimPrefix f ''@'') of Inr content \<Rightarrow> TrimSpace content | Inl err \<Rightarrow> f)
      else f)"

text \<open>
  \<^verbatim>\<open>addQuery\<close> of api.go. The loop over the map visits the entries in the order of the list,
  which stands for whatever order \<^verbatim>\<open>range\<close> takes. In a parsed \<open>url\<close>, \<open>url_query\<close> is what
  \<^verbatim>\<open>parsed.Query()\<close> returns (the pairs of the query string it can decode), and \<open>url_String\<close>
  writes the URL with these values encoded as its query.
\<close>

definition addQuery_loop ::
  "(string \<times> string) list \<Rightarrow> (string \<rightharpoonup> string list) \<Rightarrow> (string \<rightharpoonup> string list)" where
  "addQuery_loop params values =
     fold (\<lambda>(key, value) values. if value = [] then values else values(key \<mapsto> [value])) params values"

definition addQuery :: "platform \<Rightarrow> string \<Rightarrow> (string \<times> string) list \<Rightarrow> string" where
  "addQuery p endpoint params =
     (if length params = 0 then endpoint
      else
        (case url_Parse p endpoint of
           Inl err \<Rightarrow> endpoint
         | Inr parsed \<Rightarrow>
             (let values = url_query parsed;
                  values = addQuery_loop params values
              in url_String p (parsed\<lparr>url_query := values\<rparr>))))"

section \<open>Metadata input\<close>

text \<open>\<^verbatim>\<open>parseJSONObject\<close> and \<^verbatim>\<open>loadJSONInput\<close> of part_000; \<open>None\<close> is the nil map.\<close>

definition parseJSONObject :: "string \<Rightarrow> error + gomap option" where
  "parseJSONObject content =
     (case Unmarshal_map content of
        Inl err \<Rightarrow> Inl (Errorf ''invalid JSON payload'')
      | Inr parsed \<Rightarrow> Inr parsed)"

definition loadJSONInput :: "state \<Rightarrow> string \<Rightarrow> string \<Rightarrow> error + gomap option" where
  "loadJSONInput s metaJSON metaFile =
     (if metaJSON \<noteq> [] \<and> metaFile \<noteq> [] then Inl (Errorf ''use either --meta-json or --meta-file'')
      else if metaFile \<noteq> [] then
        (case files s metaFile of
           Inl err \<Rightarrow> Inl err
         | Inr content \<Rightarrow> parseJSONObject content)
      else if metaJSON \<noteq> [] then
        (if HasPrefix metaJSON ''@'' then
           (case files s (TrimPrefix metaJSON ''@'') of
              Inl err \<Rightarrow> Inl err
            | Inr content \<Rightarrow> parseJSONObject content)
         else parseJSONObject metaJSON)
      else Inr None)"

section \<open>The API client (internal/pingen/api.go)\<close>

record Client =
  clAPIBase :: string
  clIdentityBase :: string
  clAccessToken :: string
  clTimeout :: int64

definition UserAgent :: string where
  "UserAgent = ''pingen-cli/0.1.0''"

text \<open>The method \<^verbatim>\<open>Error\<close>: the texts of the program's own errors, the library's for the rest.\<close>

definition Error :: "platform \<Rightarrow> error \<Rightarrow> string" where
  "Error p err =
     (case err of
        Errorf m \<Rightarrow> m
      | APIError m status rid \<Rightarrow>
          if rid \<noteq> [] then m @ '' (HTTP '' @ Sprintf_d status @ '', request_id='' @ rid @ '')''
          else m @ '' (HTTP '' @ Sprintf_d status @ '')''
      | _ \<Rightarrow> error_text p err)"

text \<open>
  \<^verbatim>\<open>doRequest\<close>: the one place that sends a request on a \<^verbatim>\<open>Client\<close>. A request that
  \<^verbatim>\<open>http.NewRequest\<close> refuses is not sent. The result is an error, or the status, the request
  id of the response and its body; the callers in part_000 drop the headers they get back.
\<close>

definition doRequest ::
  "platform \<Rightarrow> state \<Rightarrow> Client \<Rightarrow> string \<Rightarrow> string \<Rightarrow> (string \<times> string) list \<Rightarrow> body \<Rightarrow>
     (error + int \<times> string \<times> string) \<times> state" where
  "doRequest p s c method endpoint headers payload =
     (case http_NewRequest p method endpoint of
        Some err \<Rightarrow> (Inl err, s)
      | None \<Rightarrow>
          (let hs = fold (\<lambda>(key, value) hs. if value = [] then hs else mput hs key value) headers
                      [(''User-Agent'', UserAgent)];
               req = \<lparr> req_method = method, req_url = endpoint, req_headers = hs,
                       req_body = payload, req_timeout = clTimeout c \<rparr>;
               res = http_Do p (length (calls s)) req;
               s = s\<lparr>calls := calls s @ [req]\<rparr>
           in case res of
                DoError err \<Rightarrow> (Inl err, s)
              | Response status rid (Inl err) \<Rightarrow> (Inl err, s)
              | Response status rid (Inr responseBody) \<Rightarrow> (Inr (status, rid, responseBody), s)))"

definition doJSON ::
  "platform \<Rightarrow> state \<Rightarrow> Client \<Rightarrow> string \<Rightarrow> string \<Rightarrow> gomap option \<Rightarrow> string \<Rightarrow> string list \<Rightarrow>
     (error + int \<times> string \<times> string) \<times> state" where
  "doJSON p s c method endpoint payload contentType extraHeaders =
     (case (case payload of
              None \<Rightarrow> Inr NoBody
            | Some m \<Rightarrow> (case Marshal p (JObject m) of Inl err \<Rightarrow> Inl err | Inr encoded \<Rightarrow> Inr (JSONBody encoded))) of
        Inl err \<Rightarrow> (Inl err, s)
      | Inr b \<Rightarrow>
          (let headers = [(''Accept'', contentType), (''Content-Type'', contentType)];
               headers = (if clAccessToken c \<noteq> []
                          then mput headers ''Authorization'' (''Bearer '' @ clAccessToken c) else headers);
               headers = (case extraHeaders of
                            [] \<Rightarrow> headers
                          | h # _ \<Rightarrow> if h \<noteq> [] then mput headers ''Idempotency-Key'' h else headers)
           in doRequest p s c method endpoint headers b))"

definition decodeJSON :: "string \<Rightarrow> error + gomap option" where
  "decodeJSON b =
     (if length b = 0 then Inr (Some [])
      else (case Unmarshal_map b of Inl err \<Rightarrow> Inl err | Inr payload \<Rightarrow> Inr payload))"

text \<open>Indexing a map that may be nil, and the type assertions on what it holds.\<close>

definition pget :: "gomap option \<Rightarrow> string \<Rightarrow> json option" where
  "pget payload k = (case payload of None \<Rightarrow> None | Some m \<Rightarrow> mget m k)"

definition as_string :: "json option \<Rightarrow> string \<times> bool" where
  "as_string v = (case v of Some (JString x) \<Rightarrow> (x, True) | _ \<Rightarrow> ([], False))"

definition as_map :: "json option \<Rightarrow> gomap option \<times> bool" where
  "as_map v = (case v of Some (JObject m) \<Rightarrow> (Some m, True) | _ \<Rightarrow> (None, False))"

definition as_float64 :: "json option \<Rightarrow> string \<times> bool" where
  "as_float64 v = (case v of Some (JNumber lit) \<Rightarrow> (lit, True) | _ \<Rightarrow> ([], False))"

definition GetToken ::
  "platform \<Rightarrow> state \<Rightarrow> Client \<Rightarrow> string \<Rightarrow> string \<Rightarrow> string \<Rightarrow> (error + gomap option) \<times> state" where
  "GetToken p s c clientID' clientSecret' scope =
     (let endpoint = clIdentityBase c @ ''/auth/access-tokens'';
          form = [(''grant_type'', ''client_credentials''), (''client_id'', clientID'),
                  (''client_secret'', clientSecret')];
          form = (if scope \<noteq> [] then mput form ''scope'' scope else form);
          headers = [(''Content-Type'', ''application/x-www-form-urlencoded''),
                     (''Accept'', ''application/json'')]
      in case doRequest p s c ''POST'' endpoint headers (FormBody form) of
           (Inl err, s) \<Rightarrow> (Inl err, s)
         | (Inr (status, rid, b), s) \<Rightarrow>
             if status \<noteq> 200 then (Inl (APIError ''token request failed'' status rid), s)
             else (decodeJSON b, s))"

definition ListLetters ::
  "platform \<Rightarrow> state \<Rightarrow> Client \<Rightarrow> string \<Rightarrow> (string \<times> string) list \<Rightarrow> (error + gomap option) \<times> state" where
  "ListLetters p s c orgID params =
     (let endpoint = clAPIBase c @ ''/organisations/'' @ orgID @ ''/letters'';
          endpoint = addQuery p endpoint params
      in case doJSON p s c ''GET'' endpoint None ''application/vnd.api+json'' [] of
           (Inl err, s) \<Rightarrow> (Inl err, s)
         | (Inr (status, rid, b), s) \<Rightarrow>
             if status \<noteq> 200 then (Inl (APIError ''list letters failed'' status rid), s)
             else (decodeJSON b, s))"

definition GetFileUpload ::
  "platform \<Rightarrow> state \<Rightarrow> Client \<Rightarrow> (error + string \<times> string) \<times> state" where
  "GetFileUpload p s c =
     (let endpoint = clAPIBase c @ ''/file-upload''
      in case doJSON p s c ''GET'' endpoint None ''application/vnd.api+json'' [] of
           (Inl err, s) \<Rightarrow> (Inl err, s)
         | (Inr (status, rid, b), s) \<Rightarrow>
             if status \<noteq> 200 then (Inl (APIError ''file upload request failed'' status rid), s)
             else
               (case decodeJSON b of
                  Inl err \<Rightarrow> (Inl err, s)
                | Inr payload \<Rightarrow>
                    (case as_map (pget payload ''data'') of (data, ok) \<Rightarrow>
                       if \<not> ok then (Inl (APIError ''file upload response missing data'' status []), s)
                       else
                         (case as_map (pget data ''attributes'') of (attrs, ok) \<Rightarrow>
                            if \<not> ok
                            then (Inl (APIError ''file upload response missing attributes'' status []), s)
                            else
                              (let urlValue = fst (as_string (pget attrs ''url''));
                                   sigValue = fst (as_string (pget attrs ''url_signature''))
                               in if urlValue = [] \<or> sigValue = []
                                  then (Inl (APIError ''file upload response missing url data'' status []), s)
                                  else (Inr (urlValue, sigValue), s))))))"

text \<open>\<^verbatim>\<open>UploadFile\<close> sends with a client of its own and does not read the response body.\<close>

definition UploadFile ::
  "platform \<Rightarrow> state \<Rightarrow> Client \<Rightarrow> string \<Rightarrow> string \<Rightarrow> int64 \<Rightarrow> error option \<times> state" where
  "UploadFile p s c uploadURL path tmo =
     (case os_Open p path of
        Inl err \<Rightarrow> (Some err, s)
      | Inr len \<Rightarrow>
          (case http_NewRequest p ''PUT'' uploadURL of
             Some err \<Rightarrow> (Some err, s)
           | None \<Rightarrow>
               (let req = \<lparr> req_method = ''PUT'', req_url = uploadURL,
                            req_headers = [(''User-Agent'', UserAgent)],
                            req_body = FileBody path len, req_timeout = tmo \<rparr>;
                    res = http_Do p (length (calls s)) req;
                    s = s\<lparr>calls := calls s @ [req]\<rparr>
                in case res of
                     DoError err \<Rightarrow> (Some err, s)
                   | Response status rid b \<Rightarrow>
                       if status \<noteq> 200 \<and> status \<noteq> 201 \<and> status \<noteq> 204
                       then (Some (APIError ''file upload failed'' status []), s)
                       else (None, s))))"

definition CreateLetter ::
  "platform \<Rightarrow> state \<Rightarrow> Client \<Rightarrow> string \<Rightarrow> gomap \<Rightarrow> string \<Rightarrow> (error + gomap option) \<times> state" where
  "CreateLetter p s c orgID payload idempotencyKey' =
     (let endpoint = clAPIBase c @ ''/organisations/'' @ orgID @ ''/letters''
      in case doJSON p s c ''POST'' endpoint (Some payload) ''application/vnd.api+json''
                [idempotencyKey'] of
           (Inl err, s) \<Rightarrow> (Inl err, s)
         | (Inr (status, rid, b), s) \<Rightarrow>
             if status \<noteq> 200 \<and> status \<noteq> 201
             then (Inl (APIError ''create letter failed'' status rid), s)
             else (decodeJSON b, s))"

definition SendLetter ::
  "platform \<Rightarrow> state \<Rightarrow> Client \<Rightarrow> string \<Rightarrow> string \<Rightarrow> gomap \<Rightarrow> string \<Rightarrow>
     (error + gomap option) \<times> state" where
  "SendLetter p s c orgID letterID payload idempotencyKey' =
     (let endpoint = clAPIBase c @ ''/organisations/'' @ orgID @ ''/letters/'' @ letterID @ ''/send''
      in case doJSON p s c ''PATCH'' endpoint (Some payload) ''application/vnd.api+json''
                [idempotencyKey'] of
           (Inl err, s) \<Rightarrow> (Inl err, s)
         | (Inr (status, rid, b), s) \<Rightarrow>
             if status \<noteq> 200 \<and> status \<noteq> 204
             then (Inl (APIError ''send letter failed'' status rid), s)
             else if length b = 0 then (Inr (Some []), s)
             else (decodeJSON b, s))"

definition DefaultFileName :: "platform \<Rightarrow> string \<Rightarrow> string" where
  "DefaultFileName p path =
     (let base = filepath_Base p path
      in if base = ''.'' \<or> base = ''/'' then ''document.pdf'' else base)"

section \<open>The access token (part_000)\<close>

definition defaultScope :: string where
  "defaultScope = ''letter batch webhook organisation_read''"

text \<open>
  \<^verbatim>\<open>ensureAccessToken\<close> from its line 827 on: the token request and what follows it. The
  result is the token or the error, the context with the new token, and the state.
\<close>

definition ensureAccessToken_refresh ::
  "platform \<Rightarrow> state \<Rightarrow> appContext \<Rightarrow> (error + string) \<times> appContext \<times> state" where
  "ensureAccessToken_refresh p s ctx =
     (let st = settings ctx;
          client = \<lparr> clAPIBase = APIBase st, clIdentityBase = IdentityBase st, clAccessToken = [],
                     clTimeout = seconds (timeout (global ctx)) \<rparr>
      in case GetToken p s client (ClientID st) (ClientSecret st) defaultScope of
           (Inl err, s) \<Rightarrow> (Inl err, ctx, s)
         | (Inr payload, s) \<Rightarrow>
             (case as_string (pget payload ''access_token'') of (token, ok) \<Rightarrow>
                if \<not> ok \<or> token = [] then (Inl (Errorf ''access token missing in response''), ctx, s)
                else
                  (let ctx = ctx\<lparr>settings := st\<lparr>AccessToken := token\<rparr>\<rparr>
                   in if configLoaded ctx then
                        (case LoadConfig p s (configPath ctx) of (cfg, _, _) \<Rightarrow>
                           (let cfg = cfg\<lparr>AccessToken := token\<rparr>
                            in case as_float64 (pget payload ''expires_in'') of (expires, ok) \<Rightarrow>
                                 (case (if ok then
                                          (case Now p s of (now, s) \<Rightarrow>
                                             (cfg\<lparr>AccessTokenExpiresAt :=
                                                   unix_sec (time_Add now
                                                     (seconds (float64_to_int64 (float_conv p) expires)))\<rparr>,
                                              s))
                                        else (cfg, s)) of
                                    (cfg, s) \<Rightarrow>
                                      (case SaveConfig p s (configPath ctx) cfg of (_, s) \<Rightarrow>
                                         (Inr token, ctx, s)))))
                      else (Inr token, ctx, s))))"

text \<open>
  Lines 816 to 823 decide whether the token of the settings is returned as it is; the clock
  is read only for a token with a stored expiry.
\<close>

definition token_reusable :: "platform \<Rightarrow> state \<Rightarrow> Config \<Rightarrow> bool \<times> state" where
  "token_reusable p s st =
     (if AccessToken st \<noteq> [] then
        (if AccessTokenExpiresAt st = 0 then (True, s)
         else (case Now p s of (now, s) \<Rightarrow>
                 (sint (unix_sec now) < sint (AccessTokenExpiresAt st - 30), s)))
      else (False, s))"

definition ensureAccessToken ::
  "platform \<Rightarrow> state \<Rightarrow> appContext \<Rightarrow> (error + string) \<times> appContext \<times> state" where
  "ensureAccessToken p s ctx =
     (case token_reusable p s (settings ctx) of
        (True, s) \<Rightarrow> (Inr (AccessToken (settings ctx)), ctx, s)
      | (False, s) \<Rightarrow>
          if ClientID (settings ctx) = [] \<or> ClientSecret (settings ctx) = []
          then (Inl (Errorf ''access token required (use --access-token or auth token)''), ctx, s)
          else ensureAccessToken_refresh p s ctx)"

section \<open>The handlers of letters (part_000)\<close>

text \<open>
  A handler gets what \<^verbatim>\<open>fs.Parse\<close> leaves of its arguments: the values of its flags, the
  arguments that remain, and the error or none. (What the flag package itself prints about an
  error is not modelled.) It returns the exit code and the state.
\<close>

record listFlags =
  pageFlag :: int
  limitFlag :: int
  sortFlag :: string
  filterFlag :: string
  qFlag :: string
  includeFlag :: string
  fieldsFlag :: string
  listHelp :: bool

record sendFlags =
  deliveryProduct :: string
  printMode :: string
  printSpectrum :: string
  metaJSON :: string
  metaFile :: string
  idempotencyKey :: string
  helpFlag :: bool

record createFlags = sendFlags +
  filePath :: string
  fileName :: string
  addressPos :: string
  autoSend :: bool

fun isAllowed :: "string \<Rightarrow> string list \<Rightarrow> bool" where
  "isAllowed v [] = False"
| "isAllowed v (item # allowed) = (if v = item then True else isAllowed v allowed)"

definition json_of :: "gomap option \<Rightarrow> json" where
  "json_of payload = (case payload of None \<Rightarrow> JNull | Some m \<Rightarrow> JObject m)"

definition emitJSON :: "platform \<Rightarrow> state \<Rightarrow> json \<Rightarrow> int \<times> state" where
  "emitJSON p s payload =
     (case MarshalIndent p payload of
        Inl err \<Rightarrow> (1, printError s ''failed to encode json'' 0 [])
      | Inr encoded \<Rightarrow> (0, Println s encoded))"

definition printLetterSummary :: "platform \<Rightarrow> state \<Rightarrow> gomap option \<Rightarrow> state" where
  "printLetterSummary p s payload = Println s (render p ''summary'' (json_of payload))"

definition as_array :: "json option \<Rightarrow> json list" where
  "as_array v = (case v of Some (JArray xs) \<Rightarrow> xs | _ \<Rightarrow> [])"

definition client_for :: "appContext \<Rightarrow> string \<Rightarrow> Client" where
  "client_for ctx token =
     \<lparr> clAPIBase = APIBase (settings ctx), clIdentityBase = [], clAccessToken = token,
       clTimeout = seconds (timeout (global ctx)) \<rparr>"

definition list_usage :: "string \<Rightarrow> string" where
  "list_usage cmd = ''Usage: pingen-cli '' @ cmd @
     '' [--page N] [--limit N] [--sort expr] [--filter json] [--q query] [--include rel] [--fields list]''"

definition print_rows :: "platform \<Rightarrow> state \<Rightarrow> string \<Rightarrow> gomap option \<Rightarrow> state" where
  "print_rows p s kind payload =
     fold (\<lambda>entry s. Println s (render p kind entry)) (as_array (pget payload ''data'')) s"

definition handleLettersList ::
  "platform \<Rightarrow> state \<Rightarrow> appContext \<Rightarrow> listFlags \<times> string list \<times> error option \<Rightarrow> int \<times> state" where
  "handleLettersList p s ctx parsed =
     (case parsed of (fl, remaining, perr) \<Rightarrow>
        if OrganisationID (settings ctx) = [] then (2, printError s ''organisation id required'' 0 [])
        else if perr \<noteq> None then (2, s)
        else if listHelp fl then (0, Println s (list_usage ''letters list''))
        else
          (let params = buildListParams s (pageFlag fl) (limitFlag fl) (sortFlag fl) (filterFlag fl)
                          (qFlag fl) (includeFlag fl) (fieldsFlag fl) ''letters''
           in case ensureAccessToken p s ctx of
                (Inl err, ctx, s) \<Rightarrow> (1, printError s (Error p err) 0 [])
              | (Inr token, ctx, s) \<Rightarrow>
                  (case ListLetters p s (client_for ctx token) (OrganisationID (settings ctx)) params of
                     (Inl err, s) \<Rightarrow> (1, printError s (Error p err) 0 [])
                   | (Inr payload, s) \<Rightarrow>
                       if jsonOutput (global ctx) then emitJSON p s (json_of payload)
                       else (0, print_rows p s ''letter'' payload))))"

definition delivery_products :: "string list" where
  "delivery_products = [''fast'', ''cheap'', ''bulk'', ''premium'', ''registered'']"

definition print_modes :: "string list" where
  "print_modes = [''simplex'', ''duplex'']"

definition print_spectrums :: "string list" where
  "print_spectrums = [''color'', ''grayscale'']"

definition create_usage :: string where
  "create_usage = ''Usage: pingen-cli letters create --file <path> [--file-name name] '' @
     ''[--address-position left|right] [--auto-send] [--delivery-product ...] [--print-mode ...] '' @
     ''[--print-spectrum ...] [--meta-json ...|--meta-file ...] [--idempotency-key ...]''"

definition send_usage :: string where
  "send_usage = ''Usage: pingen-cli letters send <letter_id> '' @
     ''--delivery-product <fast|cheap|bulk|premium|registered> --print-mode <simplex|duplex> '' @
     ''--print-spectrum <color|grayscale> [--meta-json ...|--meta-file ...]''"

text \<open>
  \<^verbatim>\<open>handleLettersCreate\<close> up to its line 637: the checks of the local input. It ends the
  command with an exit code, or gives the attributes and the name of the file.
\<close>

definition create_checks ::
  "platform \<Rightarrow> state \<Rightarrow> appContext \<Rightarrow> createFlags \<times> string list \<times> error option \<Rightarrow>
     (int \<times> state) + (gomap \<times> string)" where
  "create_checks p s ctx parsed =
     (case parsed of (fl, remaining, perr) \<Rightarrow>
        if OrganisationID (settings ctx) = [] then Inl (2, printError s ''organisation id required'' 0 [])
        else if perr \<noteq> None then Inl (2, s)
        else if helpFlag fl then Inl (0, Println s create_usage)
        else if filePath fl = [] then Inl (2, printError s ''--file is required'' 0 [])
        else if addressPos fl \<noteq> ''left'' \<and> addressPos fl \<noteq> ''right''
        then Inl (2, printError s ''address-position must be left or right'' 0 [])
        else if os_Stat p (filePath fl) \<noteq> None then Inl (2, printError s ''file not found'' 0 [])
        else
          (let originalName = (if fileName fl = [] then DefaultFileName p (filePath fl) else fileName fl)
           in case loadJSONInput s (metaJSON fl) (metaFile fl) of
                Inl err \<Rightarrow> Inl (2, printError s (Error p err) 0 [])
              | Inr metaData \<Rightarrow>
                  (let attributes = [(''file_original_name'', JString originalName),
                                     (''address_position'', JString (addressPos fl)),
                                     (''auto_send'', JBool (autoSend fl))]
                   in if deliveryProduct fl \<noteq> [] \<and> \<not> isAllowed (deliveryProduct fl) delivery_products
                      then Inl (2, printError s ''invalid delivery-product'' 0 [])
                      else
                        (let attributes =
                               (if deliveryProduct fl \<noteq> []
                                then mput attributes ''delivery_product'' (JString (deliveryProduct fl))
                                else attributes)
                         in if printMode fl \<noteq> [] \<and> \<not> isAllowed (printMode fl) print_modes
                            then Inl (2, printError s ''invalid print-mode'' 0 [])
                            else
                              (let attributes =
                                     (if printMode fl \<noteq> []
                                      then mput attributes ''print_mode'' (JString (printMode fl))
                                      else attributes)
                               in if printSpectrum fl \<noteq> [] \<and> \<not> isAllowed (printSpectrum fl) print_spectrums
                                  then Inl (2, printError s ''invalid print-spectrum'' 0 [])
                                  else
                                    (let attributes =
                                           (if printSpectrum fl \<noteq> []
                                            then mput attributes ''print_spectrum''
                                                   (JString (printSpectrum fl))
                                            else attributes);
                                         attributes =
                                           (case metaData of
                                              Some m \<Rightarrow> mput attributes ''meta_data'' (JObject m)
                                            | None \<Rightarrow> attributes)
                                     in Inr (attributes, originalName)))))))"

text \<open>An index into a map gives \<^verbatim>\<open>nil\<close> for a key that is not there.\<close>

definition index :: "gomap \<Rightarrow> string \<Rightarrow> json" where
  "index m k = (case mget m k of None \<Rightarrow> JNull | Some v \<Rightarrow> v)"

definition copy_key :: "gomap \<Rightarrow> string \<Rightarrow> gomap \<Rightarrow> gomap" where
  "copy_key attributes k target =
     (case mget attributes k of None \<Rightarrow> target | Some v \<Rightarrow> mput target k v)"

definition progress :: "state \<Rightarrow> appContext \<Rightarrow> string \<Rightarrow> state" where
  "progress s ctx line =
     (if verbose (global ctx) \<and> \<not> quiet (global ctx) then Eprintln s line else s)"

text \<open>\<^verbatim>\<open>handleLettersCreate\<close> from its line 649 on: the four requests of a creation.\<close>

definition create_live ::
  "platform \<Rightarrow> state \<Rightarrow> appContext \<Rightarrow> createFlags \<Rightarrow> gomap \<Rightarrow> string \<Rightarrow> int \<times> state" where
  "create_live p s ctx fl attributes originalName =
     (case ensureAccessToken p s ctx of
        (Inl err, ctx, s) \<Rightarrow> (1, printError s (Error p err) 0 [])
      | (Inr token, ctx, s) \<Rightarrow>
          (let client = client_for ctx token;
               s = progress s ctx ''requesting upload url...''
           in case GetFileUpload p s client of
                (Inl err, s) \<Rightarrow> (1, printError s (Error p err) 0 [])
              | (Inr (uploadURL, signature), s) \<Rightarrow>
                  (let s = progress s ctx ''uploading file...'';
                       uploadTimeout = seconds (timeout (global ctx));
                       uploadTimeout = (if sint uploadTimeout < sint (seconds 60) then seconds 60
                                        else uploadTimeout)
                   in case UploadFile p s client uploadURL (filePath fl) uploadTimeout of
                        (Some err, s) \<Rightarrow> (1, printError s (Error p err) 0 [])
                      | (None, s) \<Rightarrow>
                          (let attrs = [(''file_original_name'', JString originalName),
                                        (''file_url'', JString uploadURL),
                                        (''file_url_signature'', JString signature),
                                        (''address_position'', index attributes ''address_position''),
                                        (''auto_send'', index attributes ''auto_send'')];
                               attrs = copy_key attributes ''delivery_product'' attrs;
                               attrs = copy_key attributes ''print_mode'' attrs;
                               attrs = copy_key attributes ''print_spectrum'' attrs;
                               attrs = copy_key attributes ''meta_data'' attrs;
                               payload = [(''data'', JObject [(''type'', JString ''letters''),
                                                             (''attributes'', JObject attrs)])];
                               s = progress s ctx ''creating letter...''
                           in case CreateLetter p s client (OrganisationID (settings ctx)) payload
                                     (idempotencyKey fl) of
                                (Inl err, s) \<Rightarrow> (1, printError s (Error p err) 0 [])
                              | (Inr resp, s) \<Rightarrow>
                                  if jsonOutput (global ctx) then emitJSON p s (json_of resp)
                                  else (0, printLetterSummary p s resp)))))"

definition handleLettersCreate ::
  "platform \<Rightarrow> state \<Rightarrow> appContext \<Rightarrow> createFlags \<times> string list \<times> error option \<Rightarrow> int \<times> state" where
  "handleLettersCreate p s ctx parsed =
     (case create_checks p s ctx parsed of
        Inl r \<Rightarrow> r
      | Inr (attributes, originalName) \<Rightarrow>
          (case parsed of (fl, remaining, perr) \<Rightarrow>
             if dryRun (global ctx) then
               emitJSON p s
                 (JObject [(''action'', JString ''letters.create''),
                           (''file'', JString (filePath fl)),
                           (''organisation_id'', JString (OrganisationID (settings ctx))),
                           (''attributes'', JObject attributes)])
             else create_live p s ctx fl attributes originalName))"

text \<open>
  \<^verbatim>\<open>handleLettersSend\<close> up to its line 774: the checks, which give the letter id and the
  attributes.
\<close>

definition send_checks ::
  "platform \<Rightarrow> state \<Rightarrow> appContext \<Rightarrow> sendFlags \<times> string list \<times> error option \<Rightarrow>
     (int \<times> state) + (string \<times> gomap)" where
  "send_checks p s ctx parsed =
     (case parsed of (fl, remaining, perr) \<Rightarrow>
        if OrganisationID (settings ctx) = [] then Inl (2, printError s ''organisation id required'' 0 [])
        else if perr \<noteq> None then Inl (2, s)
        else if helpFlag fl then Inl (0, Println s send_usage)
        else
          (case remaining of
             [] \<Rightarrow> Inl (2, printError s ''letter id required'' 0 [])
           | letterID # _ \<Rightarrow>
               if deliveryProduct fl = [] \<or> printMode fl = [] \<or> printSpectrum fl = []
               then Inl (2, printError s
                           ''delivery-product, print-mode, and print-spectrum are required'' 0 [])
               else if \<not> isAllowed (deliveryProduct fl) delivery_products
               then Inl (2, printError s ''invalid delivery-product'' 0 [])
               else if \<not> isAllowed (printMode fl) print_modes
               then Inl (2, printError s ''invalid print-mode'' 0 [])
               else if \<not> isAllowed (printSpectrum fl) print_spectrums
               then Inl (2, printError s ''invalid print-spectrum'' 0 [])
               else
                 (case loadJSONInput s (metaJSON fl) (metaFile fl) of
                    Inl err \<Rightarrow> Inl (2, printError s (Error p err) 0 [])
                  | Inr metaData \<Rightarrow>
                      (let attributes = [(''delivery_product'', JString (deliveryProduct fl)),
                                         (''print_mode'', JString (printMode fl)),
                                         (''print_spectrum'', JString (printSpectrum fl))];
                           attributes =
                             (case metaData of
                                Some m \<Rightarrow> mput attributes ''meta_data'' (JObject m)
                              | None \<Rightarrow> attributes)
                       in Inr (letterID, attributes)))))"

text \<open>\<^verbatim>\<open>handleLettersSend\<close> from its line 786 on.\<close>

definition send_live ::
  "platform \<Rightarrow> state \<Rightarrow> appContext \<Rightarrow> sendFlags \<Rightarrow> string \<Rightarrow> gomap \<Rightarrow> int \<times> state" where
  "send_live p s ctx fl letterID attributes =
     (case ensureAccessToken p s ctx of
        (Inl err, ctx, s) \<Rightarrow> (1, printError s (Error p err) 0 [])
      | (Inr token, ctx, s) \<Rightarrow>
          (let client = client_for ctx token;
               payload = [(''data'', JObject [(''id'', JString letterID),
                                             (''type'', JString ''letters''),
                                             (''attributes'', JObject attributes)])]
           in case SendLetter p s client (OrganisationID (settings ctx)) letterID payload
                     (idempotencyKey fl) of
                (Inl err, s) \<Rightarrow> (1, printError s (Error p err) 0 [])
              | (Inr resp, s) \<Rightarrow>
                  if jsonOutput (global ctx) then emitJSON p s (json_of resp)
                  else (0, printLetterSummary p s resp)))"

definition handleLettersSend ::
  "platform \<Rightarrow> state \<Rightarrow> appContext \<Rightarrow> sendFlags \<times> string list \<times> error option \<Rightarrow> int \<times> state" where
  "handleLettersSend p s ctx parsed =
     (case send_checks p s ctx parsed of
        Inl r \<Rightarrow> r
      | Inr (letterID, attributes) \<Rightarrow>
          (case parsed of (fl, remaining, perr) \<Rightarrow>
             if dryRun (global ctx) then
               emitJSON p s
                 (JObject [(''action'', JString ''letters.send''),
                           (''organisation_id'', JString (OrganisationID (settings ctx))),
                           (''letter_id'', JString letterID),
                           (''attributes'', JObject attributes)])
             else send_live p s ctx fl letterID attributes))"

section \<open>A sample platform\<close>

text \<open>
  One platform and one state on which the theorems below are instantiated: the configuration
  lives at \<open>/cfg/pingen.json\<close> and can be written, the clock stands at 1700000000, every URL
  parses to a query of \<open>lang=en\<close> and \<open>page[number]=1\<close> (and is written back with the
  parameters \<open>filter\<close>, \<open>lang\<close> and \<open>page[number]\<close>), and every request is answered by
  a token. Its encoder of JSON writes a value on one line, the members of an object in the
  order of the list, and strings between quotes as they are; its encoder of a configuration
  writes the fields on lines of their own, as \<^verbatim>\<open>MarshalIndent\<close> lays out the struct.
\<close>

definition sample_quote :: "string \<Rightarrow> string" where
  "sample_quote x = [CHR 0x22] @ x @ [CHR 0x22]"

fun sample_encode :: "json \<Rightarrow> string" where
  "sample_encode JNull = ''null''"
| "sample_encode (JBool b) = (if b then ''true'' else ''false'')"
| "sample_encode (JNumber lit) = lit"
| "sample_encode (JString x) = sample_quote x"
| "sample_encode (JArray xs) = ''['' @ Join (map sample_encode xs) '','' @ '']''"
| "sample_encode (JObject kvs) =
     ''{'' @ Join (map (\<lambda>kv. sample_quote (fst kv) @ '':'' @ sample_encode (snd kv)) kvs) '','' @ ''}''"

definition sample_encode_Config :: "Config \<Rightarrow> string" where
  "sample_encode_Config c =
     Join [''{'',
           ''  '' @ sample_quote ''env'' @ '': '' @ sample_quote (Env c) @ '','',
           ''  '' @ sample_quote ''api_base'' @ '': '' @ sample_quote (APIBase c) @ '','',
           ''  '' @ sample_quote ''identity_base'' @ '': '' @ sample_quote (IdentityBase c) @ '','',
           ''  '' @ sample_quote ''organisation_id'' @ '': '' @ sample_quote (OrganisationID c) @ '','',
           ''  '' @ sample_quote ''access_token'' @ '': '' @ sample_quote (AccessToken c) @ '','',
           ''  '' @ sample_quote ''access_token_expires_at'' @ '': '' @
             Sprintf_d (sint (AccessTokenExpiresAt c)) @ '','',
           ''  '' @ sample_quote ''client_id'' @ '': '' @ sample_quote (ClientID c) @ '','',
           ''  '' @ sample_quote ''client_secret'' @ '': '' @ sample_quote (ClientSecret c),
           ''}''] [CHR 0x0A]"

text \<open>The body of a token response whose token is \<open>tok-1\<close>, with the given \<open>expires_in\<close>.\<close>

definition sample_body :: "string \<Rightarrow> string" where
  "sample_body e =
     ''{'' @ sample_quote ''access_token'' @ '':'' @ sample_quote ''tok-1'' @ '','' @
     sample_quote ''expires_in'' @ '':'' @ e @ ''}''"

definition sample_token_body :: string where
  "sample_token_body = sample_body ''3600''"

definition sample_platform :: platform where
  "sample_platform =
     \<lparr> os_Getenv = (\<lambda>k. if k = ''PINGEN_CONFIG_PATH'' then ''/cfg/pingen.json'' else []),
       os_UserHomeDir = Inr ''/home/op'',
       filepath_Join = (\<lambda>xs. Join xs ''/''),
       filepath_Dir = (\<lambda>x. ''/cfg''),
       filepath_Base = (\<lambda>x. ''doc.pdf''),
       decode_Config = (\<lambda>v. Inr Config_zero),
       MarshalIndent_Config = (\<lambda>c. Inr (sample_encode_Config c)),
       MarshalIndent = (\<lambda>v. Inr (sample_encode v)),
       Marshal = (\<lambda>v. Inr ''{}''),
       os_Stat = (\<lambda>x. None),
       os_MkdirAll = (\<lambda>x. None),
       os_OpenFile = (\<lambda>x. None),
       file_Write = (\<lambda>x payload. (length payload, None)),
       os_Open = (\<lambda>x. Inr 1024),
       time_Now = (\<lambda>k. \<lparr> unix_sec = 1700000000, nsec = 0 \<rparr>),
       float_conv = (\<lambda>lit. 0),
       error_text = (\<lambda>e. ''error''),
       render = (\<lambda>k v. ''row''),
       url_Parse = (\<lambda>u. Inr \<lparr> url_rest = u,
                     url_query = [''lang'' \<mapsto> [''en''], ''page[number]'' \<mapsto> [''1'']] \<rparr>),
       url_String = (\<lambda>u. url_rest u @ ''?'' @
                     Join (map (\<lambda>k. k @ ''='' @ Join (case url_query u k of None \<Rightarrow> [] | Some vs \<Rightarrow> vs) '','')
                            [''filter'', ''lang'', ''page[number]'']) ''&''),
       http_NewRequest = (\<lambda>m u. None),
       http_Do = (\<lambda>k req. Response 200 [] (Inr sample_token_body)) \<rparr>"

definition sample_secret_text :: string where
  "sample_secret_text = ''  file-s3cret'' @ [CHR 0x0A]"

definition sample_state :: state where
  "sample_state =
     \<lparr> files = (\<lambda>path. if path = ''/cfg/pingen.json'' then Inr ''{}''
                       else if path = ''/run/secret'' then Inr sample_secret_text
                       else Inl ErrNotExist),
       ticks = 0, calls = [], stdout = [], stderr = [] \<rparr>"

definition sample_global :: globalOptions where
  "sample_global =
     \<lparr> showHelp = False, showVersion = False, env = [], apiBase = [], identityBase = [],
       organisationID = ''org-1'', accessToken = [], clientID = ''id-1'', clientSecret = ''s3cret'',
       clientSecretFile = [], timeout = 30, jsonOutput = False, plain = False, quiet = False,
       verbose = False, dryRun = False \<rparr>"

definition sample_settings :: Config where
  "sample_settings =
     \<lparr> Env = ''staging'', APIBase = ''https://api-staging.pingen.com'',
       IdentityBase = ''https://identity-staging.pingen.com'', OrganisationID = ''org-1'',
       AccessToken = [], AccessTokenExpiresAt = 0, ClientID = ''id-1'', ClientSecret = ''s3cret'' \<rparr>"

definition sample_ctx :: appContext where
  "sample_ctx =
     \<lparr> global = sample_global, configPath = ''/cfg/pingen.json'', configLoaded = True,
       settings = sample_settings \<rparr>"

text \<open>The same context with a cached token that expires at the given time and no client secret.\<close>

definition sample_cached_ctx :: "int64 \<Rightarrow> appContext" where
  "sample_cached_ctx expiry =
     sample_ctx\<lparr>settings := sample_settings\<lparr>AccessToken := ''tok-0'',
       AccessTokenExpiresAt := expiry, ClientSecret := []\<rparr>\<rparr>"

text \<open>The client and the request of a token refresh in the sample context.\<close>

definition sample_client :: Client where
  "sample_client =
     \<lparr> clAPIBase = ''https://api-staging.pingen.com'',
       clIdentityBase = ''https://identity-staging.pingen.com'',
       clAccessToken = [], clTimeout = seconds 30 \<rparr>"

definition sample_token_request :: http_request where
  "sample_token_request =
     \<lparr> req_method = ''POST'', req_url = ''https://identity-staging.pingen.com/auth/access-tokens'',
       req_headers = [(''User-Agent'', ''pingen-cli/0.1.0''),
                      (''Content-Type'', ''application/x-www-form-urlencoded''),
                      (''Accept'', ''application/json'')],
       req_body = FormBody [(''grant_type'', ''client_credentials''), (''client_id'', ''id-1''),
                            (''client_secret'', ''s3cret''),
                            (''scope'', ''letter batch webhook organisation_read'')],
       req_timeout = 30000000000 \<rparr>"

text \<open>
  The flags of a \<^verbatim>\<open>letters create\<close> with inline metadata and of a \<^verbatim>\<open>letters send\<close>.
\<close>

definition sample_meta :: string where
  "sample_meta = ''{'' @ sample_quote ''batch'' @ '':'' @ sample_quote ''b-7'' @ ''}''"

definition sample_create :: createFlags where
  "sample_create =
     \<lparr> deliveryProduct = ''cheap'', printMode = [], printSpectrum = [], metaJSON = sample_meta,
       metaFile = [], idempotencyKey = [], helpFlag = False, filePath = ''doc.pdf'',
       fileName = [], addressPos = ''left'', autoSend = False \<rparr>"

definition sample_send :: sendFlags where
  "sample_send =
     \<lparr> deliveryProduct = ''cheap'', printMode = ''simplex'', printSpectrum = ''color'',
       metaJSON = [], metaFile = [], idempotencyKey = [], helpFlag = False \<rparr>"

text \<open>The flags of a \<^verbatim>\<open>letters list\<close> whose filter names a file that is not there.\<close>

definition sample_list :: listFlags where
  "sample_list =
     \<lparr> pageFlag = 0, limitFlag = 0, sortFlag = [], filterFlag = ''@missing.json'', qFlag = [],
       includeFlag = [], fieldsFlag = [], listHelp = False \<rparr>"

text \<open>
  The configuration file as the sample platform writes it after a token refresh that started
  from the file \<open>{}\<close>: the new token and the given expiry.
\<close>

definition sample_saved :: "string \<Rightarrow> string" where
  "sample_saved expiry =
     Join [''{'',
           ''  '' @ sample_quote ''env'' @ '': '' @ sample_quote [] @ '','',
           ''  '' @ sample_quote ''api_base'' @ '': '' @ sample_quote [] @ '','',
           ''  '' @ sample_quote ''identity_base'' @ '': '' @ sample_quote [] @ '','',
           ''  '' @ sample_quote ''organisation_id'' @ '': '' @ sample_quote [] @ '','',
           ''  '' @ sample_quote ''access_token'' @ '': '' @ sample_quote ''tok-1'' @ '','',
           ''  '' @ sample_quote ''access_token_expires_at'' @ '': '' @ expiry @ '','',
           ''  '' @ sample_quote ''client_id'' @ '': '' @ sample_quote [] @ '','',
           ''  '' @ sample_quote ''client_secret'' @ '': '' @ sample_quote [],
           ''}'',
           []] [CHR 0x0A]"

text \<open>The sample platform with a token response that carries the given \<open>expires_in\<close>.\<close>

definition sample_platform_expiring :: "string \<Rightarrow> platform" where
  "sample_platform_expiring e =
     sample_platform\<lparr>http_Do := (\<lambda>k req. Response 200 [] (Inr (sample_body e)))\<rparr>"

definition sample_dry_ctx :: appContext where
  "sample_dry_ctx = sample_ctx\<lparr>global := sample_global\<lparr>dryRun := True\<rparr>\<rparr>"

section \<open>The budget of the parser\<close>

text \<open>
  A parse that succeeds on some budget takes at least one byte and succeeds with the same result
  on every budget of at least twice the bytes it takes; so \<open>parse_json\<close> gives what any
  budget gives.
\<close>

lemma skip_ws_length: "length (skip_ws s) \<le> length s"
  by (simp add: skip_ws_def length_dropWhile_le)

lemma scan_string_shorter:
  "scan_string cs acc = Some (str, r) \<Longrightarrow> length r < length cs"
proof (induction cs acc rule: scan_string.induct)
  case (1 acc)
  then show ?case by simp
next
  case (2 c cs acc)
  show ?case
  proof (cases "c = CHR 0x22")
    case True
    then show ?thesis using "2.prems" by simp
  next
    case q: False
    show ?thesis
    proof (cases "of_char c < (0x20 :: int)")
      case True
      then show ?thesis using "2.prems" q by simp
    next
      case ctl: False
      show ?thesis
      proof (cases "c = CHR 0x5C")
        case nb: False
        show ?thesis
        proof (cases "of_char c < (0x80 :: int)")
          case True
          then show ?thesis using "2.prems" "2.IH"(3) q ctl nb by fastforce
        next
          case hi: False
          show ?thesis
          proof (cases "utf8_size (c # cs)")
            case 0
            then show ?thesis using "2.prems" "2.IH"(4) q ctl nb hi by fastforce
          next
            case (Suc k)
            then have "scan_string (drop k cs) (acc @ c # take k cs) = Some (str, r)"
              using "2.prems" q ctl nb hi by simp
            then have "length r < length (drop k cs)"
              using "2.IH"(5) q ctl nb hi Suc by blast
            then show ?thesis by simp
          qed
        qed
      next
        case bs: True
        show ?thesis
        proof (cases cs)
          case Nil
          then show ?thesis using "2.prems" q ctl bs by simp
        next
          case (Cons e r0)
          show ?thesis
          proof (cases "e = CHR ''u''")
            case True
            then show ?thesis
              using "2.prems" "2.IH"(1) q ctl bs Cons
              by (fastforce split: option.splits if_splits)
          next
            case False
            then show ?thesis
              using "2.prems" "2.IH"(2) q ctl bs Cons
              by (fastforce split: option.splits if_splits)
          qed
        qed
      qed
    qed
  qed
qed

lemma scan_exp_shorter: "scan_exp lit s = Some (l, r) \<Longrightarrow> length r \<le> length s"
  by (auto simp: scan_exp_def Let_def split: list.splits if_splits
      intro: order_trans [OF length_dropWhile_le])

lemma scan_frac_shorter: "scan_frac lit s = Some (l, r) \<Longrightarrow> length r \<le> length s"
  by (auto simp: scan_frac_def Let_def split: list.splits if_splits
      dest!: scan_exp_shorter intro: order_trans [OF _ length_dropWhile_le] le_SucI
      elim: order_trans [OF _ length_dropWhile_le, THEN le_SucI])

lemma scan_number_shorter: "scan_number s = Some (l, r) \<Longrightarrow> length r < length s"
proof -
  assume a: "scan_number s = Some (l, r)"
  define sg where "sg = (case s of [] \<Rightarrow> [] | c # _ \<Rightarrow> if c = CHR ''-'' then [c] else [])"
  define s1 where "s1 = drop (length sg) s"
  have l1: "length s1 \<le> length s" by (simp add: s1_def)
  from a obtain c r0 where s1: "s1 = c # r0"
    by (cases s1) (auto simp: scan_number_def Let_def sg_def s1_def)
  have "length r \<le> length r0"
  proof (cases "c = CHR ''0''")
    case True
    then show ?thesis
      using a s1 scan_frac_shorter [of "sg @ [c]" r0 l r]
      by (simp add: scan_number_def Let_def sg_def [symmetric] s1_def [symmetric])
  next
    case False
    then have d: "is_digit c" and f: "scan_frac (sg @ takeWhile is_digit s1) (dropWhile is_digit s1) = Some (l, r)"
      using a s1
      by (auto simp: scan_number_def Let_def sg_def [symmetric] s1_def [symmetric] split: if_splits)
    have "dropWhile is_digit s1 = dropWhile is_digit r0" using d s1 by simp
    then have "length (dropWhile is_digit s1) \<le> length r0"
      by (simp add: length_dropWhile_le)
    then show ?thesis
      using scan_frac_shorter [OF f] by simp
  qed
  then show ?thesis using s1 l1 by simp
qed

lemma pv_leaf:
  "c \<noteq> CHR ''{'' \<Longrightarrow> c \<noteq> CHR ''['' \<Longrightarrow>
   parse_value (Suc m) dep (c # cs) = parse_value (Suc 0) dep (c # cs)"
  by simp

lemma pv_leaf_shorter:
  assumes "c \<noteq> CHR ''{''" and "c \<noteq> CHR ''[''" and "parse_value (Suc 0) dep (c # cs) = Some (v, r)"
  shows "length r < length (c # cs)"
proof (cases "c = CHR 0x22")
  case True
  then show ?thesis
    using assms scan_string_shorter [of cs "[]" _ r]
    by (auto split: option.splits)
next
  case q: False
  have hp: "HasPrefix s p \<Longrightarrow> p \<noteq> [] \<Longrightarrow> length (drop (length p) s) < length s" for s p :: string
    by (cases s) (auto simp: HasPrefix_def)
  show ?thesis
  proof (cases "HasPrefix (c # cs) ''null'' \<or> HasPrefix (c # cs) ''true'' \<or> HasPrefix (c # cs) ''false''")
    case True
    then show ?thesis
      using assms q hp [of "c # cs" "''null''"] hp [of "c # cs" "''true''"] hp [of "c # cs" "''false''"]
      by (auto split: if_splits)
  next
    case False
    then have "scan_number (c # cs) \<noteq> None" and
      "\<exists>l. scan_number (c # cs) = Some (l, r)"
      using assms q by (auto split: option.splits)
    then show ?thesis
      using scan_number_shorter by blast
  qed
qed

lemma pv_obj:
  "dep < maxNestingDepth \<Longrightarrow>
   parse_value (Suc m) dep (CHR ''{'' # cs) =
     (case skip_ws cs of
        [] \<Rightarrow> None
      | d # r \<Rightarrow> if d = CHR ''}'' then Some (JObject [], r) else parse_members m (dep + 1) (d # r) [])"
  by simp

lemma pv_deep:
  "c = CHR ''{'' \<or> c = CHR ''['' \<Longrightarrow> maxNestingDepth \<le> dep \<Longrightarrow>
   parse_value m dep (c # cs) = None"
  by (cases m) auto

lemma pv_arr:
  "dep < maxNestingDepth \<Longrightarrow>
   parse_value (Suc m) dep (CHR ''['' # cs) =
     (case skip_ws cs of
        [] \<Rightarrow> None
      | d # r \<Rightarrow> if d = CHR '']'' then Some (JArray [], r) else parse_elements m (dep + 1) (d # r) [])"
  by simp

lemma parse_fuel:
  "(\<forall>dep s v r. parse_value n dep s = Some (v, r) \<longrightarrow>
      length r < length s \<and>
      (\<forall>m. 2 * (length s - length r) \<le> m \<longrightarrow> parse_value m dep s = Some (v, r))) \<and>
   (\<forall>dep s acc v r. parse_elements n dep s acc = Some (v, r) \<longrightarrow>
      length r < length s \<and>
      (\<forall>m. 2 * (length s - length r) \<le> m \<longrightarrow> parse_elements m dep s acc = Some (v, r))) \<and>
   (\<forall>dep s acc v r. parse_members n dep s acc = Some (v, r) \<longrightarrow>
      length r < length s \<and>
      (\<forall>m. 2 * (length s - length r) \<le> m \<longrightarrow> parse_members m dep s acc = Some (v, r)))"
proof (induction n)
  case 0
  then show ?case by simp
next
  case (Suc n)
  then have ihv: "\<And>dep s v r. parse_value n dep s = Some (v, r) \<Longrightarrow>
      length r < length s \<and>
      (\<forall>m. 2 * (length s - length r) \<le> m \<longrightarrow> parse_value m dep s = Some (v, r))"
    and ihe: "\<And>dep s acc v r. parse_elements n dep s acc = Some (v, r) \<Longrightarrow>
      length r < length s \<and>
      (\<forall>m. 2 * (length s - length r) \<le> m \<longrightarrow> parse_elements m dep s acc = Some (v, r))"
    and ihm: "\<And>dep s acc v r. parse_members n dep s acc = Some (v, r) \<Longrightarrow>
      length r < length s \<and>
      (\<forall>m. 2 * (length s - length r) \<le> m \<longrightarrow> parse_members m dep s acc = Some (v, r))"
    by blast+
  have V: "length r < length s \<and>
      (\<forall>m. 2 * (length s - length r) \<le> m \<longrightarrow> parse_value m dep s = Some (v, r))"
    if A: "parse_value (Suc n) dep s = Some (v, r)" for dep s v r
  proof (cases s)
    case Nil
    then show ?thesis using A by simp
  next
    case (Cons c cs)
    consider (obj) "c = CHR ''{''" | (arr) "c = CHR ''[''" | (leaf) "c \<noteq> CHR ''{''" "c \<noteq> CHR ''[''"
      by blast
    then show ?thesis
    proof cases
      case obj
      have low: "dep < maxNestingDepth"
        using A Cons obj pv_deep [of c dep "Suc n" cs] by fastforce
      note pv_obj = pv_obj [OF low]
      have A': "(case skip_ws cs of [] \<Rightarrow> None
                 | d # r \<Rightarrow> if d = CHR ''}'' then Some (JObject [], r)
                            else parse_members n (dep + 1) (d # r) []) =
                Some (v, r)"
        using A Cons obj pv_obj [of n cs] by simp
      then obtain d r0 where sk: "skip_ws cs = d # r0"
        by (cases "skip_ws cs") auto
      have len: "length (d # r0) \<le> length cs"
        using skip_ws_length [of cs] sk by simp
      show ?thesis
      proof (cases "d = CHR ''}''")
        case True
        then have r: "r = r0" "v = JObject []" using A' sk by auto
        have "parse_value m dep s = Some (v, r)" if "2 * (length s - length r) \<le> m" for m
        proof -
          from that r len Cons obtain k where "m = Suc k" by (cases m) auto
          then show ?thesis using Cons obj sk True r pv_obj [of k cs] by simp
        qed
        then show ?thesis using r len Cons by auto
      next
        case False
        then have B: "parse_members n (dep + 1) (d # r0) [] = Some (v, r)" using A' sk by simp
        note ih = ihm [OF B]
        have "parse_value m dep s = Some (v, r)" if "2 * (length s - length r) \<le> m" for m
        proof -
          from that ih len Cons obtain k where k: "m = Suc k" by (cases m) auto
          then have "2 * (length (d # r0) - length r) \<le> k" using that ih len Cons by auto
          then have "parse_members k (dep + 1) (d # r0) [] = Some (v, r)" using ih by blast
          then show ?thesis using k Cons obj sk False pv_obj [of k cs] by simp
        qed
        then show ?thesis using ih len Cons by auto
      qed
    next
      case arr
      have low: "dep < maxNestingDepth"
        using A Cons arr pv_deep [of c dep "Suc n" cs] by fastforce
      note pv_arr = pv_arr [OF low]
      have A': "(case skip_ws cs of [] \<Rightarrow> None
                 | d # r \<Rightarrow> if d = CHR '']'' then Some (JArray [], r)
                            else parse_elements n (dep + 1) (d # r) []) =
                Some (v, r)"
        using A Cons arr pv_arr [of n cs] by simp
      then obtain d r0 where sk: "skip_ws cs = d # r0"
        by (cases "skip_ws cs") auto
      have len: "length (d # r0) \<le> length cs"
        using skip_ws_length [of cs] sk by simp
      show ?thesis
      proof (cases "d = CHR '']''")
        case True
        then have r: "r = r0" "v = JArray []" using A' sk by auto
        have "parse_value m dep s = Some (v, r)" if "2 * (length s - length r) \<le> m" for m
        proof -
          from that r len Cons obtain k where "m = Suc k" by (cases m) auto
          then show ?thesis using Cons arr sk True r pv_arr [of k cs] by simp
        qed
        then show ?thesis using r len Cons by auto
      next
        case False
        then have B: "parse_elements n (dep + 1) (d # r0) [] = Some (v, r)" using A' sk by simp
        note ih = ihe [OF B]
        have "parse_value m dep s = Some (v, r)" if "2 * (length s - length r) \<le> m" for m
        proof -
          from that ih len Cons obtain k where k: "m = Suc k" by (cases m) auto
          then have "2 * (length (d # r0) - length r) \<le> k" using that ih len Cons by auto
          then have "parse_elements k (dep + 1) (d # r0) [] = Some (v, r)" using ih by blast
          then show ?thesis using k Cons arr sk False pv_arr [of k cs] by simp
        qed
        then show ?thesis using ih len Cons by auto
      qed
    next
      case leaf
      have L: "parse_value (Suc 0) dep (c # cs) = Some (v, r)"
        using A Cons pv_leaf [OF leaf, of n dep cs] by simp
      have sh: "length r < length (c # cs)"
        by (rule pv_leaf_shorter [OF leaf L])
      have "parse_value m dep s = Some (v, r)" if "2 * (length s - length r) \<le> m" for m
      proof -
        from that sh Cons obtain k where "m = Suc k" by (cases m) auto
        then show ?thesis using L Cons pv_leaf [OF leaf, of k dep cs] by simp
      qed
      then show ?thesis using sh Cons by auto
    qed
  qed
  have E: "length r < length s \<and>
      (\<forall>m. 2 * (length s - length r) \<le> m \<longrightarrow> parse_elements m dep s acc = Some (v, r))"
    if A: "parse_elements (Suc n) dep s acc = Some (v, r)" for dep s acc v r
  proof -
    from A obtain v1 r1 where pv: "parse_value n dep s = Some (v1, r1)"
      by (cases "parse_value n dep s") auto
    note ih1 = ihv [OF pv]
    from A pv obtain d r' where sk: "skip_ws r1 = d # r'"
      by (cases "skip_ws r1") auto
    have len: "length (d # r') \<le> length r1"
      using skip_ws_length [of r1] sk by simp
    consider (comma) "d = CHR '',''" | (close) "d \<noteq> CHR '',''" "d = CHR '']''"
      using A pv sk by (auto split: if_splits)
    then show ?thesis
    proof cases
      case close
      then have r: "r = r'" "v = JArray (acc @ [v1])" using A pv sk by auto
      have "parse_elements m dep s acc = Some (v, r)" if "2 * (length s - length r) \<le> m" for m
      proof -
        from that r len ih1 obtain k where k: "m = Suc k" by (cases m) auto
        then have "2 * (length s - length r1) \<le> k" using that r len ih1 by auto
        then have "parse_value k dep s = Some (v1, r1)" using ih1 by blast
        then show ?thesis using k sk close r by simp
      qed
      then show ?thesis using r len ih1 by auto
    next
      case comma
      then have B: "parse_elements n dep (skip_ws r') (acc @ [v1]) = Some (v, r)"
        using A pv sk by simp
      note ih2 = ihe [OF B]
      have l2: "length (skip_ws r') \<le> length r'" by (rule skip_ws_length)
      have "parse_elements m dep s acc = Some (v, r)" if "2 * (length s - length r) \<le> m" for m
      proof -
        from that ih2 l2 len ih1 obtain k where k: "m = Suc k" by (cases m) auto
        then have "2 * (length s - length r1) \<le> k" using that ih2 l2 len ih1 by auto
        then have a: "parse_value k dep s = Some (v1, r1)" using ih1 by blast
        have "2 * (length (skip_ws r') - length r) \<le> k" using k that ih2 l2 len ih1 by auto
        then have b: "parse_elements k dep (skip_ws r') (acc @ [v1]) = Some (v, r)" using ih2 by blast
        show ?thesis using k a b sk comma by simp
      qed
      then show ?thesis using ih2 l2 len ih1 by auto
    qed
  qed
  have M: "length r < length s \<and>
      (\<forall>m. 2 * (length s - length r) \<le> m \<longrightarrow> parse_members m dep s acc = Some (v, r))"
    if A: "parse_members (Suc n) dep s acc = Some (v, r)" for dep s acc v r
  proof -
    from A obtain cs where s: "s = CHR 0x22 # cs"
      by (cases s) (auto split: if_splits)
    from A s obtain k0 r0 where ss: "scan_string cs [] = Some (k0, r0)"
      by (cases "scan_string cs []") auto
    have l0: "length r0 < length cs" by (rule scan_string_shorter [OF ss])
    from A s ss obtain d r1 where sk1: "skip_ws r0 = d # r1"
      by (cases "skip_ws r0") auto
    have d: "d = CHR '':''" using A s ss sk1 by (auto split: if_splits)
    have l1: "length (d # r1) \<le> length r0" using skip_ws_length [of r0] sk1 by simp
    from A s ss sk1 d obtain v1 r2 where pv: "parse_value n dep (skip_ws r1) = Some (v1, r2)"
      by (cases "parse_value n dep (skip_ws r1)") auto
    note ih1 = ihv [OF pv]
    have l2: "length (skip_ws r1) \<le> length r1" by (rule skip_ws_length)
    from A s ss sk1 d pv obtain e r3 where sk2: "skip_ws r2 = e # r3"
      by (cases "skip_ws r2") auto
    have l3: "length (e # r3) \<le> length r2" using skip_ws_length [of r2] sk2 by simp
    consider (comma) "e = CHR '',''" | (close) "e \<noteq> CHR '',''" "e = CHR ''}''"
      using A s ss sk1 d pv sk2 by (auto split: if_splits)
    then show ?thesis
    proof cases
      case close
      then have r: "r = r3" "v = JObject (acc @ [(k0, v1)])" using A s ss sk1 d pv sk2 by auto
      have "parse_members m dep s acc = Some (v, r)" if "2 * (length s - length r) \<le> m" for m
      proof -
        from that r s l0 l1 l2 l3 ih1 obtain k where k: "m = Suc k" by (cases m) auto
        then have "2 * (length (skip_ws r1) - length r2) \<le> k"
          using that r s l0 l1 l2 l3 ih1 by auto
        then have "parse_value k dep (skip_ws r1) = Some (v1, r2)" using ih1 by blast
        then show ?thesis using k s ss sk1 d sk2 close r by simp
      qed
      then show ?thesis using r s l0 l1 l2 l3 ih1 by auto
    next
      case comma
      then have B: "parse_members n dep (skip_ws r3) (acc @ [(k0, v1)]) = Some (v, r)"
        using A s ss sk1 d pv sk2 by simp
      note ih2 = ihm [OF B]
      have l4: "length (skip_ws r3) \<le> length r3" by (rule skip_ws_length)
      have "parse_members m dep s acc = Some (v, r)" if "2 * (length s - length r) \<le> m" for m
      proof -
        from that s l0 l1 l2 l3 l4 ih1 ih2 obtain k where k: "m = Suc k" by (cases m) auto
        then have "2 * (length (skip_ws r1) - length r2) \<le> k"
          using that s l0 l1 l2 l3 l4 ih1 ih2 by auto
        then have a: "parse_value k dep (skip_ws r1) = Some (v1, r2)" using ih1 by blast
        have "2 * (length (skip_ws r3) - length r) \<le> k"
          using k that s l0 l1 l2 l3 l4 ih1 ih2 by auto
        then have b: "parse_members k dep (skip_ws r3) (acc @ [(k0, v1)]) = Some (v, r)"
          using ih2 by blast
        show ?thesis using k a b s ss sk1 d sk2 comma by simp
      qed
      then show ?thesis using s l0 l1 l2 l3 l4 ih1 ih2 by auto
    qed
  qed
  show ?case using V E M by blast
qed

lemma parse_json_budget:
  assumes "parse_value n 0 (skip_ws s) = Some (v, r)"
  shows "parse_json s = (if skip_ws r = [] then Some v else None)"
proof -
  have "2 * (length (skip_ws s) - length r) \<le> 2 * length s + 2"
    using skip_ws_length [of s] by simp
  then have "parse_value (2 * length s + 2) 0 (skip_ws s) = Some (v, r)"
    using parse_fuel [of n] assms by blast
  then show ?thesis by (simp add: parse_json_def)
qed

text \<open>
  Two points of the syntax on examples: a byte that starts no UTF-8 sequence is read as U+FFFD,
  and an array or object inside 10000 others is refused (lemma \<open>pv_deep\<close>).
\<close>

lemma invalid_byte_replaced:
  "parse_json [CHR 0x22, CHR 0xFF, CHR ''a'', CHR 0xC3, CHR 0xA9, CHR 0x22] =
     Some (JString [CHR 0xEF, CHR 0xBF, CHR 0xBD, CHR ''a'', CHR 0xC3, CHR 0xA9])"
  by code_simp

lemma nested_arrays: "parse_json ''[[[]]]'' = Some (JArray [JArray [JArray []]])"
  by code_simp

section \<open>Facts about the helpers\<close>

lemma MergeConfig_fields:
  "Env (MergeConfig b ov) = (if Env ov \<noteq> [] then Env ov else Env b)"
  "APIBase (MergeConfig b ov) = (if APIBase ov \<noteq> [] then APIBase ov else APIBase b)"
  "IdentityBase (MergeConfig b ov) = (if IdentityBase ov \<noteq> [] then IdentityBase ov else IdentityBase b)"
  "OrganisationID (MergeConfig b ov) =
     (if OrganisationID ov \<noteq> [] then OrganisationID ov else OrganisationID b)"
  "AccessToken (MergeConfig b ov) = (if AccessToken ov \<noteq> [] then AccessToken ov else AccessToken b)"
  "AccessTokenExpiresAt (MergeConfig b ov) =
     (if AccessTokenExpiresAt ov \<noteq> 0 then AccessTokenExpiresAt ov else AccessTokenExpiresAt b)"
  "ClientID (MergeConfig b ov) = (if ClientID ov \<noteq> [] then ClientID ov else ClientID b)"
  "ClientSecret (MergeConfig b ov) = (if ClientSecret ov \<noteq> [] then ClientSecret ov else ClientSecret b)"
  by (simp_all add: MergeConfig_def Let_def)

lemma map_of_mput: "map_of (mput m k v) = (map_of m)(k \<mapsto> v)"
proof -
  have "map_of (filter (\<lambda>kv. fst kv \<noteq> k) m) k' = (if k' = k then None else map_of m k')" for k'
    by (induction m) auto
  then show ?thesis
    by (auto simp: mput_def fun_eq_iff map_add_def split: option.splits)
qed

lemma map_of_if_mput:
  "map_of (if c then mput m k v else m) = (\<lambda>x. if x = k \<and> c then Some v else map_of m x)"
  by (auto simp: map_of_mput)

lemma distinct_mput: "distinct (map fst m) \<Longrightarrow> distinct (map fst (mput m k v))"
  by (auto simp: mput_def distinct_map_filter)

lemma printError_calls: "calls (printError s m st r) = calls s"
  by (simp add: printError_def Let_def)

lemma Println_calls: "calls (Println s l) = calls s"
  by (simp add: Println_def)

lemma emitJSON_calls: "calls (snd (emitJSON p s v)) = calls s"
  by (simp add: emitJSON_def printError_calls Println_calls split: sum.splits)

text \<open>Evaluations on the sample platform.\<close>

lemmas sample_defs =
  sample_platform_def sample_state_def sample_ctx_def sample_settings_def sample_global_def

lemma sample_secret_trimmed: "TrimSpace sample_secret_text = ''file-s3cret''"
  by code_simp

lemma broken_text_fails: "parse_json ''{broken'' = None"
  by code_simp

lemma empty_object_parses: "parse_json ''{}'' = Some (JObject [])"
  by code_simp

lemma empty_object_decodes: "Unmarshal_map ''{}'' = Inr (Some [])"
  by code_simp

lemma sample_run:
  "run sample_platform sample_state
     (sample_global\<lparr>clientSecretFile := ''/run/secret''\<rparr>, [''org'', ''list''], None) =
   (Dispatch ''org''
      \<lparr> global = sample_global\<lparr>clientSecretFile := ''/run/secret''\<rparr>,
        configPath = ''/cfg/pingen.json'', configLoaded = True,
        settings = sample_settings\<lparr>ClientSecret := ''file-s3cret''\<rparr> \<rparr> [''list''], sample_state)"
  by (simp add: run_def parseGlobal_def ConfigPath_def LoadConfig_def Unmarshal_Config_def
     empty_object_parses is_load_failure_def run_secret_file_def run_merge_def run_env_def
     applyDefaultBases_def configFromEnv_def configFromGlobal_def MergeConfig_def Config_zero_def
     sample_secret_trimmed sample_defs)

section \<open>The layers of the configuration\<close>

text \<open>
  C1. The settings \<^verbatim>\<open>run\<close> starts from are \<^verbatim>\<open>MergeConfig(MergeConfig(file, env), cli)\<close>, and
  for every triple of configurations each field of that fold is, independently of the other
  fields, the command-line value when it is non-empty (non-zero for the expiry), else the
  environment value when it is non-empty (non-zero), else the file value.
\<close>

theorem merge_three_layers:
  "run_merge p g fileCfg = MergeConfig (MergeConfig fileCfg (configFromEnv p)) (configFromGlobal g) \<and>
   MergeConfig (MergeConfig fileCfg envCfg) cliCfg =
     \<lparr> Env = pick3 [] (Env fileCfg) (Env envCfg) (Env cliCfg),
       APIBase = pick3 [] (APIBase fileCfg) (APIBase envCfg) (APIBase cliCfg),
       IdentityBase = pick3 [] (IdentityBase fileCfg) (IdentityBase envCfg) (IdentityBase cliCfg),
       OrganisationID =
         pick3 [] (OrganisationID fileCfg) (OrganisationID envCfg) (OrganisationID cliCfg),
       AccessToken = pick3 [] (AccessToken fileCfg) (AccessToken envCfg) (AccessToken cliCfg),
       AccessTokenExpiresAt =
         pick3 0 (AccessTokenExpiresAt fileCfg) (AccessTokenExpiresAt envCfg)
           (AccessTokenExpiresAt cliCfg),
       ClientID = pick3 [] (ClientID fileCfg) (ClientID envCfg) (ClientID cliCfg),
       ClientSecret = pick3 [] (ClientSecret fileCfg) (ClientSecret envCfg) (ClientSecret cliCfg) \<rparr>"
proof
  show "run_merge p g fileCfg =
      MergeConfig (MergeConfig fileCfg (configFromEnv p)) (configFromGlobal g)"
    by (simp add: run_merge_def)
  show "MergeConfig (MergeConfig fileCfg envCfg) cliCfg =
     \<lparr> Env = pick3 [] (Env fileCfg) (Env envCfg) (Env cliCfg),
       APIBase = pick3 [] (APIBase fileCfg) (APIBase envCfg) (APIBase cliCfg),
       IdentityBase = pick3 [] (IdentityBase fileCfg) (IdentityBase envCfg) (IdentityBase cliCfg),
       OrganisationID =
         pick3 [] (OrganisationID fileCfg) (OrganisationID envCfg) (OrganisationID cliCfg),
       AccessToken = pick3 [] (AccessToken fileCfg) (AccessToken envCfg) (AccessToken cliCfg),
       AccessTokenExpiresAt =
         pick3 0 (AccessTokenExpiresAt fileCfg) (AccessTokenExpiresAt envCfg)
           (AccessTokenExpiresAt cliCfg),
       ClientID = pick3 [] (ClientID fileCfg) (ClientID envCfg) (ClientID cliCfg),
       ClientSecret = pick3 [] (ClientSecret fileCfg) (ClientSecret envCfg) (ClientSecret cliCfg) \<rparr>"
    by (rule Config.equality) (simp_all add: MergeConfig_fields pick3_def)
qed

theorem merge_three_layers_witness:
  "MergeConfig
     (MergeConfig (Config_zero\<lparr>Env := ''production'', ClientID := ''file-id'', AccessTokenExpiresAt := 7\<rparr>)
        (Config_zero\<lparr>Env := ''staging'', OrganisationID := ''env-org''\<rparr>))
     (Config_zero\<lparr>OrganisationID := ''cli-org''\<rparr>) =
   Config_zero\<lparr>Env := ''staging'', OrganisationID := ''cli-org'', ClientID := ''file-id'',
     AccessTokenExpiresAt := 7\<rparr>"
  using merge_three_layers
    [of sample_platform sample_global
      "Config_zero\<lparr>Env := ''production'', ClientID := ''file-id'', AccessTokenExpiresAt := 7\<rparr>"
      "Config_zero\<lparr>Env := ''staging'', OrganisationID := ''env-org''\<rparr>"
      "Config_zero\<lparr>OrganisationID := ''cli-org''\<rparr>"]
  by (simp add: pick3_def Config_zero_def)

lemma run_env_keeps_secret: "run_env st = Inr st' \<Longrightarrow> ClientSecret st' = ClientSecret st"
  by (auto simp: run_env_def applyDefaultBases_def Let_def split: if_splits)

text \<open>
  C8. When a client secret file is named, its contents without the surrounding white space
  become the client secret of the settings a handler gets, whatever the command line, the
  environment and the configuration file say; the step comes after the merge of the three
  layers and leaves every other field of the merged settings as it is.
\<close>

theorem secret_file_overrides:
  assumes "clientSecretFile g \<noteq> []" and "files s (clientSecretFile g) = Inr content"
  shows
    "run_secret_file s g (run_merge p g cfg) =
       Inr ((run_merge p g cfg)\<lparr>ClientSecret := TrimSpace content\<rparr>) \<and>
     (\<not> showHelp g \<and> run p s (g, sub # args, None) = (Dispatch sub ctx args, s') \<longrightarrow>
        ClientSecret (settings ctx) = TrimSpace content)"
proof -
  have a: "run_secret_file s g' (run_merge p g' cfg') =
       Inr ((run_merge p g' cfg')\<lparr>ClientSecret := TrimSpace content\<rparr>)"
    if "clientSecretFile g' = clientSecretFile g" for g' cfg'
    using assms that by (simp add: run_secret_file_def)
  have b: "ClientSecret (settings ctx) = TrimSpace content"
    if h: "\<not> showHelp g" and r: "run p s (g, sub # args, None) = (Dispatch sub ctx args, s')"
  proof -
    let ?g = "if plain g then g\<lparr>jsonOutput := False\<rparr> else g"
    have f: "clientSecretFile ?g = clientSecretFile g" by simp
    show ?thesis
      using r h a [OF f]
      by (auto simp: run_def parseGlobal_def Let_def printUsage_def
          split: if_splits sum.splits prod.splits dest: run_env_keeps_secret)
  qed
  show ?thesis using a [of g cfg] b by simp
qed

theorem secret_file_overrides_witness:
  "clientSecret sample_global = ''s3cret'' \<and>
   run_secret_file sample_state (sample_global\<lparr>clientSecretFile := ''/run/secret''\<rparr>)
       (run_merge sample_platform (sample_global\<lparr>clientSecretFile := ''/run/secret''\<rparr>) Config_zero) =
     Inr ((run_merge sample_platform (sample_global\<lparr>clientSecretFile := ''/run/secret''\<rparr>) Config_zero)
            \<lparr>ClientSecret := ''file-s3cret''\<rparr>) \<and>
   ClientSecret (settings
      \<lparr> global = sample_global\<lparr>clientSecretFile := ''/run/secret''\<rparr>,
        configPath = ''/cfg/pingen.json'', configLoaded = True,
        settings = sample_settings\<lparr>ClientSecret := ''file-s3cret''\<rparr> \<rparr>) = ''file-s3cret''"
  using secret_file_overrides
    [of "sample_global\<lparr>clientSecretFile := ''/run/secret''\<rparr>" sample_state sample_secret_text
      sample_platform Config_zero "''org''" "[''list'']"
      "\<lparr> global = sample_global\<lparr>clientSecretFile := ''/run/secret''\<rparr>,
         configPath = ''/cfg/pingen.json'', configLoaded = True,
         settings = sample_settings\<lparr>ClientSecret := ''file-s3cret''\<rparr> \<rparr>" sample_state]
    sample_run
  by (simp add: sample_secret_trimmed) (simp add: sample_global_def sample_state_def)

text \<open>
  C4. After the merge an unset environment becomes \<open>staging\<close>; an environment that is neither
  \<open>staging\<close> nor \<open>production\<close> ends the run with exit code 2 and the message of an invalid
  environment; then the API base and the identity base, each on its own, keep a value that
  was supplied and otherwise take the literal host of the environment. Every context a handler
  gets has one of the two environments and both base URLs set.
\<close>

theorem env_and_base_defaults:
  "run_env st =
     (if Env st \<noteq> [] \<and> Env st \<noteq> ''staging'' \<and> Env st \<noteq> ''production''
      then Inl (2, ''invalid env (use staging or production)'')
      else Inr (st\<lparr>
        Env := (if Env st = [] then ''staging'' else Env st),
        APIBase :=
          (if APIBase st \<noteq> [] then APIBase st
           else if Env st = ''production'' then ''https://api.pingen.com''
           else ''https://api-staging.pingen.com''),
        IdentityBase :=
          (if IdentityBase st \<noteq> [] then IdentityBase st
           else if Env st = ''production'' then ''https://identity.pingen.com''
           else ''https://identity-staging.pingen.com'')\<rparr>)) \<and>
   (run p s parsed = (Dispatch sub ctx args, s') \<longrightarrow>
      (Env (settings ctx) = ''staging'' \<or> Env (settings ctx) = ''production'') \<and>
      APIBase (settings ctx) \<noteq> [] \<and> IdentityBase (settings ctx) \<noteq> [])"
proof
  show "run_env st =
     (if Env st \<noteq> [] \<and> Env st \<noteq> ''staging'' \<and> Env st \<noteq> ''production''
      then Inl (2, ''invalid env (use staging or production)'')
      else Inr (st\<lparr>
        Env := (if Env st = [] then ''staging'' else Env st),
        APIBase :=
          (if APIBase st \<noteq> [] then APIBase st
           else if Env st = ''production'' then ''https://api.pingen.com''
           else ''https://api-staging.pingen.com''),
        IdentityBase :=
          (if IdentityBase st \<noteq> [] then IdentityBase st
           else if Env st = ''production'' then ''https://identity.pingen.com''
           else ''https://identity-staging.pingen.com'')\<rparr>))"
    by (auto simp: run_env_def applyDefaultBases_def Let_def)
  have inv: "(Env st' = ''staging'' \<or> Env st' = ''production'') \<and> APIBase st' \<noteq> [] \<and>
      IdentityBase st' \<noteq> []" if "run_env st0 = Inr st'" for st0 st'
    using that by (auto simp: run_env_def applyDefaultBases_def Let_def split: if_splits)
  show "run p s parsed = (Dispatch sub ctx args, s') \<longrightarrow>
      (Env (settings ctx) = ''staging'' \<or> Env (settings ctx) = ''production'') \<and>
      APIBase (settings ctx) \<noteq> [] \<and> IdentityBase (settings ctx) \<noteq> []"
  proof
    assume r: "run p s parsed = (Dispatch sub ctx args, s')"
    then obtain st0 where "run_env st0 = Inr (settings ctx)"
      by (auto simp: run_def Let_def split: prod.splits if_splits sum.splits)
    then show "(Env (settings ctx) = ''staging'' \<or> Env (settings ctx) = ''production'') \<and>
      APIBase (settings ctx) \<noteq> [] \<and> IdentityBase (settings ctx) \<noteq> []"
      by (rule inv)
  qed
qed

theorem env_and_base_defaults_witness:
  "run_env (sample_settings\<lparr>Env := [], APIBase := [], IdentityBase := ''https://id.example''\<rparr>) =
     Inr (sample_settings\<lparr>Env := ''staging'', APIBase := ''https://api-staging.pingen.com'',
            IdentityBase := ''https://id.example''\<rparr>) \<and>
   run_env (sample_settings\<lparr>Env := ''production'', APIBase := [], IdentityBase := []\<rparr>) =
     Inr (sample_settings\<lparr>Env := ''production'', APIBase := ''https://api.pingen.com'',
            IdentityBase := ''https://identity.pingen.com''\<rparr>) \<and>
   run_env (sample_settings\<lparr>Env := ''test''\<rparr>) = Inl (2, ''invalid env (use staging or production)'') \<and>
   Env (sample_settings\<lparr>ClientSecret := ''file-s3cret''\<rparr>) = ''staging''"
  using
    env_and_base_defaults
      [of "sample_settings\<lparr>Env := [], APIBase := [], IdentityBase := ''https://id.example''\<rparr>"
        sample_platform sample_state
        "(sample_global\<lparr>clientSecretFile := ''/run/secret''\<rparr>, [''org'', ''list''], None)"
        "''org''"
        "\<lparr> global = sample_global\<lparr>clientSecretFile := ''/run/secret''\<rparr>,
           configPath = ''/cfg/pingen.json'', configLoaded = True,
           settings = sample_settings\<lparr>ClientSecret := ''file-s3cret''\<rparr> \<rparr>"
        "[''list'']" sample_state]
    env_and_base_defaults
      [of "sample_settings\<lparr>Env := ''production'', APIBase := [], IdentityBase := []\<rparr>"]
    env_and_base_defaults [of "sample_settings\<lparr>Env := ''test''\<rparr>"]
    sample_run
  by (simp add: sample_settings_def)

text \<open>
  C10. When the configuration file exists and its contents are not JSON, an invocation with a
  subcommand (one that is not cut short by the help or version flag or by a failure to find
  the path of the file) ends with exit code 1 and the message \<open>failed to load config\<close>
  before any handler is called, whatever the subcommand is: \<open>config show\<close>, \<open>config set\<close>
  and \<open>config unset\<close> too.
\<close>

theorem corrupt_config_stops_run:
  assumes "\<not> showHelp g" and "\<not> showVersion g" and "sub \<noteq> []"
    and "ConfigPath p = Inr path" and "files s path = Inr data" and "parse_json data = None"
  shows "run p s (g, sub # args, None) = (Exit 1, printError s ''failed to load config'' 0 [])"
  using assms
  by (simp add: run_def parseGlobal_def LoadConfig_def Unmarshal_Config_def is_load_failure_def)

theorem corrupt_config_stops_run_witness:
  "run sample_platform (sample_state\<lparr>files := (\<lambda>path. Inr ''{broken'')\<rparr>)
     (sample_global, [''config'', ''show''], None) =
   (Exit 1, sample_state\<lparr>files := (\<lambda>path. Inr ''{broken''), stderr := [''failed to load config'']\<rparr>)"
  using corrupt_config_stops_run
    [of sample_global "''config''" sample_platform "''/cfg/pingen.json''"
      "sample_state\<lparr>files := (\<lambda>path. Inr ''{broken'')\<rparr>" "''{broken''" "[''show'']"]
  by (simp add: broken_text_fails ConfigPath_def printError_def sample_defs)

section \<open>Metadata\<close>

text \<open>What \<^verbatim>\<open>loadJSONInput\<close> does with the two sources, and with the text it was given or read.\<close>

lemma loadJSONInput_both:
  "mj \<noteq> [] \<Longrightarrow> mf \<noteq> [] \<Longrightarrow>
   loadJSONInput s mj mf = Inl (Errorf ''use either --meta-json or --meta-file'')"
  by (simp add: loadJSONInput_def)

lemma loadJSONInput_neither: "loadJSONInput s [] [] = Inr None"
  by (simp add: loadJSONInput_def)

lemma parseJSONObject_cases:
  "parseJSONObject content =
     (case parse_json content of
        None \<Rightarrow> Inl (Errorf ''invalid JSON payload'')
      | Some JNull \<Rightarrow> Inr None
      | Some (JObject kvs) \<Rightarrow>
          if numbers_ok (JObject kvs) then Inr (Some kvs) else Inl (Errorf ''invalid JSON payload'')
      | Some _ \<Rightarrow> Inl (Errorf ''invalid JSON payload''))"
  by (simp add: parseJSONObject_def Unmarshal_map_def split: option.splits json.splits)

lemma parseJSONObject_not_object:
  "parse_json content = Some v \<Longrightarrow> v \<noteq> JNull \<Longrightarrow> (\<forall>kvs. v \<noteq> JObject kvs) \<Longrightarrow>
   parseJSONObject content = Inl (Errorf ''invalid JSON payload'')"
  by (cases v) (simp_all add: parseJSONObject_cases)

lemma loadJSONInput_inline:
  "mj \<noteq> [] \<Longrightarrow> \<not> HasPrefix mj ''@'' \<Longrightarrow> loadJSONInput s mj [] = parseJSONObject mj"
  by (simp add: loadJSONInput_def)

lemma loadJSONInput_file:
  "mf \<noteq> [] \<Longrightarrow> files s mf = Inr content \<Longrightarrow> loadJSONInput s [] mf = parseJSONObject content"
  by (simp add: loadJSONInput_def)

text \<open>
  C5. The claim: both sources at once are a validation error, neither is no metadata and no
  error, and with one source every text that is not a JSON object is a validation error. The
  code agrees except for the JSON text \<open>null\<close>: as an inline value (or as the content of the
  file) it is not a JSON object, and \<^verbatim>\<open>loadJSONInput\<close> returns no metadata and no error for
  it, where it returns the error for the array \<open>[1,2]\<close>.
\<close>

theorem null_metadata_is_accepted:
  "parse_json ''null'' = Some JNull \<and>
   loadJSONInput s ''null'' [] = Inr None \<and>
   loadJSONInput s ''[1,2]'' [] = Inl (Errorf ''invalid JSON payload'')"
proof -
  have n: "parse_json ''null'' = Some JNull" by code_simp
  have a: "parse_json ''[1,2]'' = Some (JArray [JNumber ''1'', JNumber ''2''])" by code_simp
  show ?thesis
    using n a by (simp add: loadJSONInput_def HasPrefix_def parseJSONObject_cases)
qed

lemma null_metadata_file:
  "mf \<noteq> [] \<Longrightarrow> files s mf = Inr ''null'' \<Longrightarrow> loadJSONInput s [] mf = Inr None"
proof -
  have n: "parse_json ''null'' = Some JNull" by code_simp
  show "mf \<noteq> [] \<Longrightarrow> files s mf = Inr ''null'' \<Longrightarrow> loadJSONInput s [] mf = Inr None"
    using n by (simp add: loadJSONInput_def parseJSONObject_cases)
qed

section \<open>List parameters\<close>

lemma buildListParams_distinct:
  "distinct (map fst (buildListParams s page limit sort' filter' query include fields' resource))"
  by (simp add: buildListParams_def Let_def distinct_mput)

lemma buildListParams_map:
  "map_of (buildListParams s page limit sort' filter' query include fields' resource) =
     (\<lambda>k. if k = ''fields['' @ resource @ '']'' \<and> fields' \<noteq> [] then Some fields'
          else if k = ''include'' \<and> include \<noteq> [] then Some include
          else if k = ''q'' \<and> query \<noteq> [] then Some query
          else if k = ''filter'' \<and> filter' \<noteq> [] then Some (resolved_filter s filter')
          else if k = ''sort'' \<and> sort' \<noteq> [] then Some sort'
          else if k = ''page[limit]'' \<and> 0 < limit then Some (Sprintf_d limit)
          else if k = ''page[number]'' \<and> 0 < page then Some (Sprintf_d page)
          else None)"
  by (simp only: buildListParams_def Let_def map_of_if_mput map_of.simps resolved_filter_def)

lemma addQuery_loop_closed:
  "distinct (map fst params) \<Longrightarrow>
   addQuery_loop params vs =
     (\<lambda>k. case map_of params k of
             None \<Rightarrow> vs k
           | Some v \<Rightarrow> if v = [] then vs k else Some [v])"
  unfolding addQuery_loop_def
proof (induction params arbitrary: vs)
  case Nil
  then show ?case by simp
next
  case (Cons a params)
  obtain k v where a: "a = (k, v)" by (cases a)
  have nk: "map_of params k = None"
    using Cons.prems a by (simp add: map_of_eq_None_iff)
  show ?case
    using Cons.prems a nk
    by (auto simp: Cons.IH fun_eq_iff split: option.splits)
qed

text \<open>
  C6. On a URL that parses, \<^verbatim>\<open>addQuery\<close> leaves every query parameter that is not among the
  supplied ones (or is supplied empty) as it was and sets each supplied non-empty parameter
  to its one value, in whatever order the entries of the map are visited; with no parameters
  the URL is returned as it is. \<^verbatim>\<open>buildListParams\<close> has one entry for each key, none for a
  page or limit that is not positive nor for an empty string, and the parameters of
  \<open>page = 2\<close>, \<open>limit = 0\<close> and an empty filter are \<open>page[number]=2\<close> alone.
\<close>

theorem query_parameters:
  "(url_Parse p endpoint = Inr u \<and> params \<noteq> [] \<and> distinct (map fst params) \<longrightarrow>
      addQuery p endpoint params =
        url_String p (u\<lparr>url_query :=
          (\<lambda>k. case map_of params k of
                  None \<Rightarrow> url_query u k
                | Some v \<Rightarrow> if v = [] then url_query u k else Some [v])\<rparr>)) \<and>
   (params = [] \<longrightarrow> addQuery p endpoint params = endpoint) \<and>
   distinct (map fst (buildListParams s page limit sort' filter' query include fields' resource)) \<and>
   map_of (buildListParams s page limit sort' filter' query include fields' resource) ''page[number]'' =
     (if page > 0 then Some (Sprintf_d page) else None) \<and>
   map_of (buildListParams s page limit sort' filter' query include fields' resource) ''page[limit]'' =
     (if limit > 0 then Some (Sprintf_d limit) else None) \<and>
   map_of (buildListParams s page limit sort' filter' query include fields' resource) ''sort'' =
     (if sort' \<noteq> [] then Some sort' else None) \<and>
   (filter' = [] \<longrightarrow>
      map_of (buildListParams s page limit sort' filter' query include fields' resource) ''filter'' = None) \<and>
   map_of (buildListParams s page limit sort' filter' query include fields' resource) ''q'' =
     (if query \<noteq> [] then Some query else None) \<and>
   map_of (buildListParams s page limit sort' filter' query include fields' resource) ''include'' =
     (if include \<noteq> [] then Some include else None) \<and>
   map_of (buildListParams s page limit sort' filter' query include fields' resource)
       (''fields['' @ resource @ '']'') =
     (if fields' \<noteq> [] then Some fields' else None) \<and>
   buildListParams s 2 0 [] [] [] [] [] resource = [(''page[number]'', ''2'')]"
proof -
  have ex: "buildListParams s 2 0 [] [] [] [] [] resource = [(''page[number]'', ''2'')]"
    by (simp add: buildListParams_def mput_def Sprintf_d_def digit_char_def)
  have aq: "url_Parse p endpoint = Inr u \<and> params \<noteq> [] \<and> distinct (map fst params) \<longrightarrow>
      addQuery p endpoint params =
        url_String p (u\<lparr>url_query :=
          (\<lambda>k. case map_of params k of
                  None \<Rightarrow> url_query u k
                | Some v \<Rightarrow> if v = [] then url_query u k else Some [v])\<rparr>)"
    by (simp add: addQuery_def addQuery_loop_closed Let_def)
  show ?thesis
    using ex aq
    by (simp add: buildListParams_map buildListParams_distinct addQuery_def)
qed

theorem query_parameters_witness:
  "addQuery sample_platform ''https://api-staging.pingen.com/organisations''
     (buildListParams sample_state 2 0 [] [] [] [] [] ''organisations'') =
   ''https://api-staging.pingen.com/organisations?filter=&lang=en&page[number]=2'' \<and>
   addQuery sample_platform ''https://api-staging.pingen.com/organisations'' [] =
     ''https://api-staging.pingen.com/organisations''"
  using query_parameters
    [of sample_platform "''https://api-staging.pingen.com/organisations''"
      "\<lparr> url_rest = ''https://api-staging.pingen.com/organisations'',
         url_query = [''lang'' \<mapsto> [''en''], ''page[number]'' \<mapsto> [''1'']] \<rparr>"
      "[(''page[number]'', ''2'')]" sample_state 2 0 "[]" "[]" "[]" "[]" "[]" "''organisations''"]
    query_parameters [of sample_platform "''https://api-staging.pingen.com/organisations''" _ "[]"]
  by (simp add: sample_platform_def Sprintf_d_def digit_char_def)

lemma print_rows_calls: "calls (print_rows p s kind payload) = calls s"
proof -
  have "calls (fold (\<lambda>entry s. Println s (render p kind entry)) xs s) = calls s" for xs
    by (induction xs arbitrary: s) (simp_all add: Println_calls)
  then show ?thesis by (simp add: print_rows_def)
qed

lemma doRequest_sends:
  "http_NewRequest p m e = None \<Longrightarrow>
   map req_url (calls (snd (doRequest p s c m e hs b))) = map req_url (calls s) @ [e]"
  by (simp add: doRequest_def Let_def split: http_result.splits sum.splits)

lemma ListLetters_sends:
  assumes "http_NewRequest p ''GET''
             (addQuery p (clAPIBase c @ ''/organisations/'' @ org @ ''/letters'') params) = None"
  shows "map req_url (calls (snd (ListLetters p s c org params))) =
     map req_url (calls s) @ [addQuery p (clAPIBase c @ ''/organisations/'' @ org @ ''/letters'') params]"
  using doRequest_sends [OF assms]
  by (simp add: ListLetters_def doJSON_def Let_def case_prod_unfold split: sum.splits)

lemma ensureAccessToken_cached:
  "AccessToken (settings ctx) \<noteq> [] \<Longrightarrow> AccessTokenExpiresAt (settings ctx) = 0 \<Longrightarrow>
   ensureAccessToken p s ctx = (Inr (AccessToken (settings ctx)), ctx, s)"
  by (simp add: ensureAccessToken_def token_reusable_def)

lemma handleLettersList_sends:
  assumes "OrganisationID (settings ctx) \<noteq> []" and "\<not> listHelp fl"
    and "AccessToken (settings ctx) \<noteq> []" and "AccessTokenExpiresAt (settings ctx) = 0"
    and "http_NewRequest p ''GET''
           (addQuery p (APIBase (settings ctx) @ ''/organisations/'' @ OrganisationID (settings ctx) @
              ''/letters'')
              (buildListParams s (pageFlag fl) (limitFlag fl) (sortFlag fl) (filterFlag fl)
                 (qFlag fl) (includeFlag fl) (fieldsFlag fl) ''letters'')) = None"
  shows "map req_url (calls (snd (handleLettersList p s ctx (fl, rest, None)))) =
     map req_url (calls s) @
       [addQuery p (APIBase (settings ctx) @ ''/organisations/'' @ OrganisationID (settings ctx) @
              ''/letters'')
          (buildListParams s (pageFlag fl) (limitFlag fl) (sortFlag fl) (filterFlag fl)
             (qFlag fl) (includeFlag fl) (fieldsFlag fl) ''letters'')]"
proof -
  let ?c = "client_for ctx (AccessToken (settings ctx))"
  have base: "clAPIBase ?c = APIBase (settings ctx)" by (simp add: client_for_def)
  show ?thesis
    using assms ListLetters_sends [of p ?c "OrganisationID (settings ctx)" _ s]
    by (simp add: handleLettersList_def ensureAccessToken_cached Let_def base case_prod_unfold
        printError_calls emitJSON_calls print_rows_calls split: sum.splits)
qed

text \<open>
  C9. For a filter argument that begins with \<open>@\<close> and names a file that cannot be read,
  \<^verbatim>\<open>buildListParams\<close> (which has no error to return) stores the argument itself, the \<open>@\<close>
  included, under \<open>filter\<close>, and \<^verbatim>\<open>addQuery\<close> puts it into the URL as the one value of the
  query parameter \<open>filter\<close>. \<^verbatim>\<open>letters list\<close> does not stop at the unreadable file: with an
  organisation, a token in the settings and a URL that \<^verbatim>\<open>http.NewRequest\<close> accepts, it sends
  its request to that URL.
\<close>

theorem unreadable_filter_file_sent_literally:
  assumes "HasPrefix filter' ''@''" and "files s (TrimPrefix filter' ''@'') = Inl err"
  shows
    "map_of (buildListParams s page limit sort' filter' query include fields' resource) ''filter'' =
       Some filter' \<and>
     (url_Parse p endpoint = Inr u \<longrightarrow>
        addQuery p endpoint (buildListParams s page limit sort' filter' query include fields' resource) =
          url_String p (u\<lparr>url_query :=
            addQuery_loop (buildListParams s page limit sort' filter' query include fields' resource)
              (url_query u)\<rparr>) \<and>
        addQuery_loop (buildListParams s page limit sort' filter' query include fields' resource)
          (url_query u) ''filter'' = Some [filter']) \<and>
     (filterFlag fl = filter' \<and> OrganisationID (settings ctx) \<noteq> [] \<and> \<not> listHelp fl \<and>
      AccessToken (settings ctx) \<noteq> [] \<and> AccessTokenExpiresAt (settings ctx) = 0 \<and>
      http_NewRequest p ''GET''
        (addQuery p (APIBase (settings ctx) @ ''/organisations/'' @ OrganisationID (settings ctx) @
           ''/letters'')
           (buildListParams s (pageFlag fl) (limitFlag fl) (sortFlag fl) filter'
              (qFlag fl) (includeFlag fl) (fieldsFlag fl) ''letters'')) = None \<longrightarrow>
        map req_url (calls (snd (handleLettersList p s ctx (fl, rest, None)))) =
          map req_url (calls s) @
            [addQuery p (APIBase (settings ctx) @ ''/organisations/'' @ OrganisationID (settings ctx) @
               ''/letters'')
               (buildListParams s (pageFlag fl) (limitFlag fl) (sortFlag fl) filter'
                  (qFlag fl) (includeFlag fl) (fieldsFlag fl) ''letters'')])"
proof -
  have ne: "filter' \<noteq> []"
    using assms(1) by (auto simp: HasPrefix_def)
  have m: "map_of (buildListParams s page limit sort' filter' query include fields' resource) ''filter'' =
       Some filter'"
    using assms ne by (simp add: buildListParams_map resolved_filter_def)
  have nn: "buildListParams s page limit sort' filter' query include fields' resource \<noteq> []"
    using m by auto
  have v: "addQuery_loop (buildListParams s page limit sort' filter' query include fields' resource)
          vs ''filter'' = Some [filter']" for vs
    using m ne by (simp add: addQuery_loop_closed buildListParams_distinct)
  have h: "filterFlag fl = filter' \<and> OrganisationID (settings ctx) \<noteq> [] \<and> \<not> listHelp fl \<and>
      AccessToken (settings ctx) \<noteq> [] \<and> AccessTokenExpiresAt (settings ctx) = 0 \<and>
      http_NewRequest p ''GET''
        (addQuery p (APIBase (settings ctx) @ ''/organisations/'' @ OrganisationID (settings ctx) @
           ''/letters'')
           (buildListParams s (pageFlag fl) (limitFlag fl) (sortFlag fl) filter'
              (qFlag fl) (includeFlag fl) (fieldsFlag fl) ''letters'')) = None \<longrightarrow>
        map req_url (calls (snd (handleLettersList p s ctx (fl, rest, None)))) =
          map req_url (calls s) @
            [addQuery p (APIBase (settings ctx) @ ''/organisations/'' @ OrganisationID (settings ctx) @
               ''/letters'')
               (buildListParams s (pageFlag fl) (limitFlag fl) (sortFlag fl) filter'
                  (qFlag fl) (includeFlag fl) (fieldsFlag fl) ''letters'')]"
    using handleLettersList_sends [of ctx fl p s rest] by auto
  show ?thesis
    using m nn v h by (simp add: addQuery_def Let_def)
qed

theorem unreadable_filter_file_sent_literally_witness:
  "buildListParams sample_state 0 0 [] ''@missing.json'' [] [] [] ''letters'' =
     [(''filter'', ''@missing.json'')] \<and>
   addQuery sample_platform ''https://api-staging.pingen.com/organisations/org-1/letters''
     (buildListParams sample_state 0 0 [] ''@missing.json'' [] [] [] ''letters'') =
   ''https://api-staging.pingen.com/organisations/org-1/letters?filter=@missing.json&lang=en&page[number]=1'' \<and>
   map req_url (calls (snd (handleLettersList sample_platform sample_state (sample_cached_ctx 0)
     (sample_list, [], None)))) =
   [''https://api-staging.pingen.com/organisations/org-1/letters?filter=@missing.json&lang=en&page[number]=1'']"
  using unreadable_filter_file_sent_literally
    [of "''@missing.json''" sample_state ErrNotExist 0 0 "[]" "[]" "[]" "[]" "''letters''"
      sample_platform "''https://api-staging.pingen.com/organisations/org-1/letters''"
      "\<lparr> url_rest = ''https://api-staging.pingen.com/organisations/org-1/letters'',
         url_query = [''lang'' \<mapsto> [''en''], ''page[number]'' \<mapsto> [''1'']] \<rparr>"
      sample_list "sample_cached_ctx 0" "[]"]
  by (simp add: HasPrefix_def TrimPrefix_def sample_state_def buildListParams_def mput_def
      addQuery_loop_def sample_list_def sample_cached_ctx_def sample_ctx_def sample_settings_def)
    (simp add: sample_platform_def)

section \<open>The access token\<close>

lemma sint_minus_30:
  fixes x :: int64
  assumes "- 9223372036854775778 \<le> sint x"
  shows "sint (x - 30) = sint x - 30"
proof -
  have ub: "sint x < 9223372036854775808"
    using sint_lt [of x] by simp
  have "sint (x - 30) = signed_take_bit 63 (sint x - 30)"
    by (simp add: sint_word_ariths)
  also have "\<dots> = sint x - 30"
    by (rule signed_take_bit_int_eq_self) (use assms ub in simp_all)
  finally show ?thesis .
qed

lemma token_reusable_calls: "calls (snd (token_reusable p s st)) = calls s"
  by (simp add: token_reusable_def Now_def)

lemma token_reusable_fst:
  "fst (token_reusable p s st) =
     (AccessToken st \<noteq> [] \<and>
      (AccessTokenExpiresAt st = 0 \<or>
       sint (unix_sec (time_Now p (ticks s))) < sint (AccessTokenExpiresAt st - 30)))"
  by (simp add: token_reusable_def Now_def)

text \<open>A request that is answered has been sent.\<close>

lemma doRequest_sent:
  "doRequest p s c m e hs b = (Inr x, s1) \<Longrightarrow> length (calls s1) = Suc (length (calls s))"
  by (auto simp: doRequest_def Let_def split: option.splits http_result.splits sum.splits)

lemma GetToken_sent:
  assumes "GetToken p s c i k sc = (Inr payload, s1)"
  shows "length (calls s1) = Suc (length (calls s))"
proof -
  obtain r s2 where d: "doRequest p s c ''POST'' (clIdentityBase c @ ''/auth/access-tokens'')
      [(''Content-Type'', ''application/x-www-form-urlencoded''), (''Accept'', ''application/json'')]
      (FormBody (if sc \<noteq> []
                 then mput [(''grant_type'', ''client_credentials''), (''client_id'', i),
                            (''client_secret'', k)] ''scope'' sc
                 else [(''grant_type'', ''client_credentials''), (''client_id'', i),
                       (''client_secret'', k)])) = (r, s2)"
    by (cases "doRequest p s c ''POST'' (clIdentityBase c @ ''/auth/access-tokens'')
      [(''Content-Type'', ''application/x-www-form-urlencoded''), (''Accept'', ''application/json'')]
      (FormBody (if sc \<noteq> []
                 then mput [(''grant_type'', ''client_credentials''), (''client_id'', i),
                            (''client_secret'', k)] ''scope'' sc
                 else [(''grant_type'', ''client_credentials''), (''client_id'', i),
                       (''client_secret'', k)]))")
  from assms d obtain x where "r = Inr x" and "s1 = s2"
    by (cases r) (auto simp: GetToken_def Let_def split: if_splits)
  with d show ?thesis
    using doRequest_sent by blast
qed

lemma SaveConfig_calls: "calls (snd (SaveConfig p s path cfg)) = calls s"
  by (simp add: SaveConfig_def Let_def split: option.splits sum.splits prod.splits)

lemma refresh_sent:
  assumes "fst (ensureAccessToken_refresh p s ctx) = Inr tok"
  shows "length (calls (snd (snd (ensureAccessToken_refresh p s ctx)))) = Suc (length (calls s))"
proof -
  define client where "client = \<lparr> clAPIBase = APIBase (settings ctx),
     clIdentityBase = IdentityBase (settings ctx), clAccessToken = [],
     clTimeout = seconds (timeout (global ctx)) \<rparr>"
  obtain r s1 where g: "GetToken p s client (ClientID (settings ctx)) (ClientSecret (settings ctx))
      defaultScope = (r, s1)"
    by (cases "GetToken p s client (ClientID (settings ctx)) (ClientSecret (settings ctx)) defaultScope")
  show ?thesis
  proof (cases r)
    case (Inl err)
    with g assms show ?thesis
      by (simp add: ensureAccessToken_refresh_def Let_def client_def)
  next
    case (Inr payload)
    with g have "length (calls s1) = Suc (length (calls s))"
      using GetToken_sent by blast
    moreover have "calls (snd (snd (ensureAccessToken_refresh p s ctx))) = calls s1"
      using g Inr
      by (simp add: ensureAccessToken_refresh_def Let_def client_def [symmetric] case_prod_unfold
          Now_def SaveConfig_calls)
    ultimately show ?thesis by simp
  qed
qed

text \<open>
  What \<^verbatim>\<open>ensureAccessToken\<close> does with the token of the settings, for every platform, state
  and context, with the 64-bit difference of the code: the token is returned as it is, and
  no request sent, exactly when it is not empty and the expiry is zero or the clock is below
  the difference; a call that does not reuse it and has no client id or no client secret
  fails with the error that asks for an access token, with no request sent. The difference
  is that of the integers for every expiry from \<open>- 2 ^ 63 + 30\<close> on.
\<close>

lemma token_reuse_exactly:
  fixes p :: platform and s :: state and ctx :: appContext
  defines "st \<equiv> settings ctx"
  defines "now \<equiv> unix_sec (time_Now p (ticks s))"
  defines "reuse \<equiv> AccessToken st \<noteq> [] \<and>
     (AccessTokenExpiresAt st = 0 \<or> sint now < sint (AccessTokenExpiresAt st - 30))"
  defines "r \<equiv> ensureAccessToken p s ctx"
  shows "(((\<exists>tok. fst r = Inr tok) \<and> calls (snd (snd r)) = calls s) = reuse) \<and>
         (reuse \<longrightarrow> fst r = Inr (AccessToken st) \<and> fst (snd r) = ctx) \<and>
         (\<not> reuse \<and> (ClientID st = [] \<or> ClientSecret st = []) \<longrightarrow>
            fst r = Inl (Errorf ''access token required (use --access-token or auth token)'') \<and>
            calls (snd (snd r)) = calls s) \<and>
         (- 9223372036854775778 \<le> sint (AccessTokenExpiresAt st) \<longrightarrow>
            (sint now < sint (AccessTokenExpiresAt st - 30)) =
            (sint now < sint (AccessTokenExpiresAt st) - 30))"
proof -
  obtain b s1 where tr: "token_reusable p s st = (b, s1)"
    by (cases "token_reusable p s st")
  have b: "b = reuse"
    using token_reusable_fst [of p s st] tr by (simp add: reuse_def now_def)
  have c: "calls s1 = calls s"
    using token_reusable_calls [of p s st] tr by simp
  have yes: "reuse \<Longrightarrow> r = (Inr (AccessToken st), ctx, s1)"
    using tr b by (simp add: r_def ensureAccessToken_def st_def [symmetric])
  have no: "\<not> reuse \<Longrightarrow> ClientID st = [] \<or> ClientSecret st = [] \<Longrightarrow>
      r = (Inl (Errorf ''access token required (use --access-token or auth token)''), ctx, s1)"
    using tr b by (auto simp: r_def ensureAccessToken_def st_def [symmetric])
  have go: "\<not> reuse \<Longrightarrow> ClientID st \<noteq> [] \<Longrightarrow> ClientSecret st \<noteq> [] \<Longrightarrow>
      r = ensureAccessToken_refresh p s1 ctx"
    using tr b by (auto simp: r_def ensureAccessToken_def st_def [symmetric])
  have sent: "\<not> reuse \<Longrightarrow> fst r = Inr tok \<Longrightarrow> calls (snd (snd r)) \<noteq> calls s" for tok
  proof -
    assume n: "\<not> reuse" and i: "fst r = Inr tok"
    from n i no have cred: "ClientID st \<noteq> []" "ClientSecret st \<noteq> []"
      by auto
    with n go have e: "r = ensureAccessToken_refresh p s1 ctx"
      by simp
    with i have "length (calls (snd (snd r))) = Suc (length (calls s1))"
      using refresh_sent [of p s1 ctx tok] by simp
    with c show ?thesis by auto
  qed
  show ?thesis
    using yes no sent c by (auto simp: sint_minus_30)
qed

text \<open>
  C2. The claim: the token of the settings is reused, with no request sent, exactly when it is
  not empty and the stored expiry is zero or the current time is below the expiry minus 30
  seconds; a call that does not reuse it and has no client id or no client secret fails with
  the error that asks for an access token, with no request sent. The code agrees (lemma
  \<open>token_reuse_exactly\<close>) except where its 64-bit difference wraps around, which is for an
  expiry below \<open>- 2 ^ 63 + 30\<close>. On the sample platform the clock stands at 1700000000.
  With the expiry \<open>- 9223372036854775798\<close> in the settings and no client secret, the expiry
  minus 30 seconds is \<open>- 9223372036854775828\<close>, far below the clock, and the claim has the
  error; the difference of the code is \<open>9223372036854775788\<close>, and the call returns the
  token of the settings. With the expiry 1700000010 the same call gives the error.
\<close>

theorem stale_token_reused:
  "ensureAccessToken sample_platform sample_state (sample_cached_ctx (- 9223372036854775798)) =
     (Inr ''tok-0'', sample_cached_ctx (- 9223372036854775798), sample_state\<lparr>ticks := 1\<rparr>) \<and>
   sint (unix_sec (time_Now sample_platform (ticks sample_state))) = 1700000000 \<and>
   sint (AccessTokenExpiresAt (settings (sample_cached_ctx (- 9223372036854775798)))) - 30 =
     - 9223372036854775828 \<and>
   sint (AccessTokenExpiresAt (settings (sample_cached_ctx (- 9223372036854775798))) - 30) =
     9223372036854775788 \<and>
   ClientSecret (settings (sample_cached_ctx (- 9223372036854775798))) = [] \<and>
   ensureAccessToken sample_platform sample_state (sample_cached_ctx 1700000010) =
     (Inl (Errorf ''access token required (use --access-token or auth token)''),
      sample_cached_ctx 1700000010, sample_state\<lparr>ticks := 1\<rparr>)"
  by (simp add: ensureAccessToken_def token_reusable_def Now_def sample_cached_ctx_def sample_defs)

text \<open>The arithmetic of the new expiry.\<close>

lemma sdiv_billion: "(e * 1000000000) sdiv 1000000000 = (e::int)"
  by (simp add: signed_divide_int_def abs_mult sgn_mult mult_sgn_abs)

lemma smod_billion: "(e * 1000000000) smod 1000000000 = (0::int)"
  by (simp add: signed_modulo_int_def abs_mult)

lemma sint_seconds:
  assumes "\<bar>e\<bar> \<le> 9223372036"
  shows "sint (seconds (word_of_int e)) = e * 1000000000"
proof -
  have "seconds (word_of_int e) = (word_of_int (e * 1000000000) :: int64)"
    by (simp add: seconds_def)
  moreover have "sint (word_of_int (e * 1000000000) :: int64) = e * 1000000000"
    unfolding sint_sbintrunc'
    by (rule signed_take_bit_int_eq_self) (use assms in simp_all)
  ultimately show ?thesis by simp
qed

lemma time_Add_seconds:
  assumes "\<bar>e\<bar> \<le> 9223372036" and "0 \<le> nsec t" and "nsec t < 1000000000"
  shows "unix_sec (time_Add t (seconds (word_of_int e))) = unix_sec t + word_of_int e"
  using assms by (simp add: time_Add_def sint_seconds sdiv_billion smod_billion Let_def)

lemma float64_to_int64_whole:
  assumes "literal_int lit = Some e" and "\<bar>e\<bar> \<le> 9223372036"
  shows "float64_to_int64 conv lit = word_of_int e"
  using assms by (simp add: float64_to_int64_def)

lemma stored_expiry_whole:
  assumes "literal_int lit = Some e" and "\<bar>e\<bar> \<le> 9223372036"
    and "0 \<le> nsec t" and "nsec t < 1000000000"
  shows "unix_sec (time_Add t (seconds (float64_to_int64 conv lit))) = unix_sec t + word_of_int e"
  using assms by (simp add: float64_to_int64_whole time_Add_seconds)

text \<open>
  The steps of \<^verbatim>\<open>ensureAccessToken\<close> after a token response that decodes to \<open>payload\<close>, for
  every platform, state and context.
\<close>

lemma refresh_token_missing:
  fixes p :: platform and s :: state and ctx :: appContext
  defines "st \<equiv> settings ctx"
  defines "client \<equiv> \<lparr> clAPIBase = APIBase st, clIdentityBase = IdentityBase st,
     clAccessToken = [], clTimeout = seconds (timeout (global ctx)) \<rparr>"
  assumes tok: "GetToken p s client (ClientID st) (ClientSecret st) defaultScope = (Inr payload, s1)"
    and none: "\<forall>t. pget payload ''access_token'' = Some (JString t) \<longrightarrow> t = []"
  shows "ensureAccessToken_refresh p s ctx =
     (Inl (Errorf ''access token missing in response''), ctx, s1)"
proof -
  from none have "\<not> snd (as_string (pget payload ''access_token'')) \<or>
             fst (as_string (pget payload ''access_token'')) = []"
    by (auto simp: as_string_def split: option.splits json.splits)
  then show ?thesis
    using tok
    by (auto simp: ensureAccessToken_refresh_def Let_def st_def client_def split: prod.splits)
qed

lemma refresh_returns_token:
  fixes p :: platform and s :: state and ctx :: appContext
  defines "st \<equiv> settings ctx"
  defines "client \<equiv> \<lparr> clAPIBase = APIBase st, clIdentityBase = IdentityBase st,
     clAccessToken = [], clTimeout = seconds (timeout (global ctx)) \<rparr>"
  assumes tok: "GetToken p s client (ClientID st) (ClientSecret st) defaultScope = (Inr payload, s1)"
    and some: "pget payload ''access_token'' = Some (JString token)" "token \<noteq> []"
  shows "fst (ensureAccessToken_refresh p s ctx) = Inr token \<and>
         fst (snd (ensureAccessToken_refresh p s ctx)) = ctx\<lparr>settings := st\<lparr>AccessToken := token\<rparr>\<rparr>"
proof -
  from some have as: "as_string (pget payload ''access_token'') = (token, True)"
    by (simp add: as_string_def)
  show ?thesis
    using tok as some
    by (simp add: ensureAccessToken_refresh_def Let_def st_def client_def split: prod.splits)
qed

lemma refresh_saves_file:
  fixes p :: platform and s :: state and ctx :: appContext
  defines "st \<equiv> settings ctx"
  defines "client \<equiv> \<lparr> clAPIBase = APIBase st, clIdentityBase = IdentityBase st,
     clAccessToken = [], clTimeout = seconds (timeout (global ctx)) \<rparr>"
  assumes tok: "GetToken p s client (ClientID st) (ClientSecret st) defaultScope = (Inr payload, s1)"
    and some: "pget payload ''access_token'' = Some (JString token)" "token \<noteq> []"
    and loaded: "configLoaded ctx"
    and expires: "pget payload ''expires_in'' = Some (JNumber lit)"
    and save: "SaveConfig p (s1\<lparr>ticks := Suc (ticks s1)\<rparr>) (configPath ctx)
       ((fst (LoadConfig p s1 (configPath ctx)))
          \<lparr>AccessToken := token,
           AccessTokenExpiresAt :=
             unix_sec (time_Add (time_Now p (ticks s1))
               (seconds (float64_to_int64 (float_conv p) lit)))\<rparr>) = (saved, s2)"
  shows "ensureAccessToken_refresh p s ctx =
     (Inr token, ctx\<lparr>settings := st\<lparr>AccessToken := token\<rparr>\<rparr>, s2)"
proof -
  from some have as: "as_string (pget payload ''access_token'') = (token, True)"
    by (simp add: as_string_def)
  from expires have af: "as_float64 (pget payload ''expires_in'') = (lit, True)"
    by (simp add: as_float64_def)
  show ?thesis
    using tok as af some loaded save
    by (simp add: ensureAccessToken_refresh_def Let_def st_def client_def Now_def
        case_prod_unfold)
qed

lemma SaveConfig_written:
  assumes "os_MkdirAll p (filepath_Dir p path) = None"
    and "MarshalIndent_Config p cfg = Inr text"
    and "os_OpenFile p path = None"
    and "file_Write p path (text @ [CHR 0x0A]) = (n, werr)"
  shows "SaveConfig p s path cfg = (werr, s\<lparr>files := (files s)(path := Inr (take n (text @ [CHR 0x0A])))\<rparr>)"
  using assms by (simp add: SaveConfig_def Let_def)

text \<open>
  For a whole number \<open>e\<close> of seconds whose duration in nanoseconds fits 64 bits, and a
  configuration file that can be written, the file holds afterwards the configuration read
  from it with the new token and the expiry \<open>t + e\<close>.
\<close>

lemma refresh_writes_file:
  fixes p :: platform and s :: state and ctx :: appContext
  defines "r \<equiv> ensureAccessToken_refresh p s ctx"
  assumes tok: "GetToken p s
       \<lparr> clAPIBase = APIBase (settings ctx), clIdentityBase = IdentityBase (settings ctx),
         clAccessToken = [], clTimeout = seconds (timeout (global ctx)) \<rparr>
       (ClientID (settings ctx)) (ClientSecret (settings ctx)) defaultScope = (Inr payload, s1)"
    and some: "pget payload ''access_token'' = Some (JString token)" "token \<noteq> []"
    and loaded: "configLoaded ctx"
    and expires: "pget payload ''expires_in'' = Some (JNumber lit)"
    and whole: "literal_int lit = Some e" "\<bar>e\<bar> \<le> 9223372036"
    and clock: "0 \<le> nsec (time_Now p (ticks s1))" "nsec (time_Now p (ticks s1)) < 1000000000"
    and dir: "os_MkdirAll p (filepath_Dir p (configPath ctx)) = None"
    and encoded: "MarshalIndent_Config p
       ((fst (LoadConfig p s1 (configPath ctx)))
          \<lparr>AccessToken := token,
           AccessTokenExpiresAt := unix_sec (time_Now p (ticks s1)) + word_of_int e\<rparr>) = Inr content"
    and opened: "os_OpenFile p (configPath ctx) = None"
    and written: "file_Write p (configPath ctx) (content @ [CHR 0x0A]) =
       (length (content @ [CHR 0x0A]), None)"
  shows "fst r = Inr token \<and> files (snd (snd r)) (configPath ctx) = Inr (content @ [CHR 0x0A])"
proof -
  have x: "unix_sec (time_Add (time_Now p (ticks s1)) (seconds (float64_to_int64 (float_conv p) lit))) =
           unix_sec (time_Now p (ticks s1)) + word_of_int e"
    using whole clock by (rule stored_expiry_whole)
  have w: "SaveConfig p (s1\<lparr>ticks := Suc (ticks s1)\<rparr>) (configPath ctx)
       ((fst (LoadConfig p s1 (configPath ctx)))
          \<lparr>AccessToken := token,
           AccessTokenExpiresAt :=
             unix_sec (time_Add (time_Now p (ticks s1))
               (seconds (float64_to_int64 (float_conv p) lit)))\<rparr>) =
       (None, s1\<lparr>ticks := Suc (ticks s1),
                files := (files s1)(configPath ctx := Inr (content @ [CHR 0x0A]))\<rparr>)"
    unfolding x using SaveConfig_written [OF dir encoded opened written] by simp
  have "r = (Inr token, ctx\<lparr>settings := (settings ctx)\<lparr>AccessToken := token\<rparr>\<rparr>,
             s1\<lparr>ticks := Suc (ticks s1),
                files := (files s1)(configPath ctx := Inr (content @ [CHR 0x0A]))\<rparr>)"
    unfolding r_def by (rule refresh_saves_file [OF tok some loaded expires w])
  then show ?thesis by simp
qed

text \<open>A save that fails changes nothing of the call: the token is returned all the same.\<close>

lemma refresh_save_failure_swallowed:
  assumes tok: "GetToken p s
       \<lparr> clAPIBase = APIBase (settings ctx), clIdentityBase = IdentityBase (settings ctx),
         clAccessToken = [], clTimeout = seconds (timeout (global ctx)) \<rparr>
       (ClientID (settings ctx)) (ClientSecret (settings ctx)) defaultScope = (Inr payload, s1)"
    and some: "pget payload ''access_token'' = Some (JString token)" "token \<noteq> []"
    and loaded: "configLoaded ctx"
    and expires: "pget payload ''expires_in'' = Some (JNumber lit)"
    and failed: "os_MkdirAll p (filepath_Dir p (configPath ctx)) = Some err"
  shows "ensureAccessToken_refresh p s ctx =
     (Inr token, ctx\<lparr>settings := (settings ctx)\<lparr>AccessToken := token\<rparr>\<rparr>,
      s1\<lparr>ticks := Suc (ticks s1)\<rparr>)"
proof -
  have w: "SaveConfig p (s1\<lparr>ticks := Suc (ticks s1)\<rparr>) (configPath ctx)
       ((fst (LoadConfig p s1 (configPath ctx)))
          \<lparr>AccessToken := token,
           AccessTokenExpiresAt :=
             unix_sec (time_Add (time_Now p (ticks s1))
               (seconds (float64_to_int64 (float_conv p) lit)))\<rparr>) =
       (Some err, s1\<lparr>ticks := Suc (ticks s1)\<rparr>)"
    using failed by (simp add: SaveConfig_def)
  show ?thesis
    by (rule refresh_saves_file [OF tok some loaded expires w])
qed

text \<open>The refresh on the sample platform.\<close>

lemma sample_GetToken:
  "GetToken (sample_platform_expiring e) sample_state sample_client ''id-1'' ''s3cret'' defaultScope =
     (Unmarshal_map (sample_body e), sample_state\<lparr>calls := [sample_token_request]\<rparr>)"
proof -
  have "sample_body e \<noteq> []"
    by (simp add: sample_body_def)
  then have "decodeJSON (sample_body e) = Unmarshal_map (sample_body e)"
    by (cases "Unmarshal_map (sample_body e)") (simp_all add: decodeJSON_def)
  then show ?thesis
    by (simp add: GetToken_def doRequest_def Let_def sample_platform_expiring_def
        sample_platform_def sample_client_def sample_token_request_def defaultScope_def mput_def
        UserAgent_def seconds_def sample_state_def)
qed

lemma sample_body_decodes:
  "Unmarshal_map (sample_body ''3600'') =
     Inr (Some [(''access_token'', JString ''tok-1''), (''expires_in'', JNumber ''3600'')])"
  "Unmarshal_map (sample_body ''10000000000'') =
     Inr (Some [(''access_token'', JString ''tok-1''), (''expires_in'', JNumber ''10000000000'')])"
  by code_simp+

lemma sample_expiry:
  "unix_sec (time_Add \<lparr>unix_sec = 1700000000, nsec = 0\<rparr>
     (seconds (float64_to_int64 (\<lambda>lit. 0) ''3600''))) = 1700003600"
  "unix_sec (time_Add \<lparr>unix_sec = 1700000000, nsec = 0\<rparr>
     (seconds (float64_to_int64 (\<lambda>lit. 0) ''10000000000''))) = - 6746744074"
  by code_simp+

lemma sample_text:
  "sample_encode_Config (Config_zero\<lparr>AccessToken := ''tok-1'', AccessTokenExpiresAt := 1700003600\<rparr>) @
     [CHR 0x0A] = sample_saved ''1700003600''"
  "sample_encode_Config (Config_zero\<lparr>AccessToken := ''tok-1'', AccessTokenExpiresAt := - 6746744074\<rparr>) @
     [CHR 0x0A] = sample_saved ''-6746744074''"
  by code_simp+


lemma sample_refresh:
  assumes d: "Unmarshal_map (sample_body e) =
     Inr (Some [(''access_token'', JString ''tok-1''), (''expires_in'', JNumber e)])"
  shows "ensureAccessToken (sample_platform_expiring e) sample_state sample_ctx =
     (Inr ''tok-1'', sample_ctx\<lparr>settings := sample_settings\<lparr>AccessToken := ''tok-1''\<rparr>\<rparr>,
      sample_state
        \<lparr>ticks := 1, calls := [sample_token_request],
         files := (files sample_state)
           (''/cfg/pingen.json'' :=
              Inr (sample_encode_Config
                     (Config_zero
                        \<lparr>AccessToken := ''tok-1'',
                         AccessTokenExpiresAt :=
                           unix_sec (time_Add \<lparr>unix_sec = 1700000000, nsec = 0\<rparr>
                             (seconds (float64_to_int64 (\<lambda>lit. 0) e)))\<rparr>) @
                   [CHR 0x0A]))\<rparr>)"
proof -
  let ?p = "sample_platform_expiring e"
  let ?s1 = "sample_state\<lparr>calls := [sample_token_request]\<rparr>"
  have r: "ensureAccessToken ?p sample_state sample_ctx =
           ensureAccessToken_refresh ?p sample_state sample_ctx"
    by (simp add: ensureAccessToken_def token_reusable_def sample_ctx_def sample_settings_def)
  have g: "GetToken ?p sample_state
       \<lparr> clAPIBase = APIBase (settings sample_ctx), clIdentityBase = IdentityBase (settings sample_ctx),
         clAccessToken = [], clTimeout = seconds (timeout (global sample_ctx)) \<rparr>
       (ClientID (settings sample_ctx)) (ClientSecret (settings sample_ctx)) defaultScope =
     (Inr (Some [(''access_token'', JString ''tok-1''), (''expires_in'', JNumber e)]), ?s1)"
    using sample_GetToken [of e] d
    by (simp add: sample_client_def sample_ctx_def sample_settings_def sample_global_def)
  have l: "fst (LoadConfig ?p ?s1 (configPath sample_ctx)) = Config_zero"
    by (simp add: LoadConfig_def Unmarshal_Config_def empty_object_parses sample_ctx_def
        sample_state_def sample_platform_expiring_def sample_platform_def)
  have n: "time_Now ?p (ticks ?s1) = \<lparr>unix_sec = 1700000000, nsec = 0\<rparr>"
    by (simp add: sample_platform_expiring_def sample_platform_def)
  have c: "float_conv ?p = (\<lambda>lit. 0)"
    by (simp add: sample_platform_expiring_def sample_platform_def)
  have w: "SaveConfig ?p (?s1\<lparr>ticks := Suc (ticks ?s1)\<rparr>) (configPath sample_ctx) cfg =
     (None, ?s1\<lparr>ticks := Suc (ticks ?s1),
                 files := (files ?s1)(configPath sample_ctx := Inr (sample_encode_Config cfg @ [CHR 0x0A]))\<rparr>)"
    for cfg
    by (simp add: SaveConfig_def Let_def sample_platform_expiring_def sample_platform_def)
  have "ensureAccessToken_refresh ?p sample_state sample_ctx =
     (Inr ''tok-1'', sample_ctx\<lparr>settings := (settings sample_ctx)\<lparr>AccessToken := ''tok-1''\<rparr>\<rparr>,
      ?s1\<lparr>ticks := Suc (ticks ?s1),
          files := (files ?s1)(configPath sample_ctx :=
            Inr (sample_encode_Config
                   ((fst (LoadConfig ?p ?s1 (configPath sample_ctx)))
                      \<lparr>AccessToken := ''tok-1'',
                       AccessTokenExpiresAt :=
                         unix_sec (time_Add (time_Now ?p (ticks ?s1))
                           (seconds (float64_to_int64 (float_conv ?p) e)))\<rparr>) @ [CHR 0x0A]))\<rparr>)"
    by (rule refresh_saves_file [OF g _ _ _ _ w])
      (simp_all add: pget_def mget_def sample_ctx_def)
  then show ?thesis
    unfolding r l n c
    by (simp add: sample_ctx_def sample_state_def)
qed

text \<open>
  C3. The claim: a token response whose \<open>access_token\<close> is absent, or is not a string, or is
  the empty string, fails with a protocol error (lemma \<open>refresh_token_missing\<close>); a response
  with \<open>expires_in = e\<close> received at the time \<open>t\<close>, when a configuration file existed at the
  start, writes the new token back with the expiry \<open>t + e\<close>; and a save that fails is
  swallowed, the call returning the new token (lemmas \<open>refresh_returns_token\<close> and
  \<open>refresh_save_failure_swallowed\<close>). The code writes \<open>t + e\<close> for a whole number \<open>e\<close> of at
  most 9223372036 seconds (lemma \<open>refresh_writes_file\<close>) and not beyond, where the duration of
  \<open>e * 10 ^ 9\<close> nanoseconds wraps around in 64 bits. On the sample platform the clock stands
  at 1700000000 and the configuration file holds \<open>{}\<close>. After the response with
  \<open>expires_in = 10000000000\<close> the file holds the new token and the expiry
  \<open>- 6746744074\<close>, which is not 11700000000 and lies in the past; after the response with
  \<open>expires_in = 3600\<close> it holds 1700003600.
\<close>

theorem refresh_expiry_wraps:
  "ensureAccessToken (sample_platform_expiring ''10000000000'') sample_state sample_ctx =
     (Inr ''tok-1'', sample_ctx\<lparr>settings := sample_settings\<lparr>AccessToken := ''tok-1''\<rparr>\<rparr>,
      sample_state
        \<lparr>ticks := 1, calls := [sample_token_request],
         files := (files sample_state)
           (''/cfg/pingen.json'' := Inr (sample_saved ''-6746744074''))\<rparr>) \<and>
   time_Now (sample_platform_expiring ''10000000000'') (ticks sample_state) =
     \<lparr>unix_sec = 1700000000, nsec = 0\<rparr> \<and>
   configLoaded sample_ctx \<and> configPath sample_ctx = ''/cfg/pingen.json'' \<and>
   files sample_state ''/cfg/pingen.json'' = Inr ''{}'' \<and>
   ensureAccessToken (sample_platform_expiring ''3600'') sample_state sample_ctx =
     (Inr ''tok-1'', sample_ctx\<lparr>settings := sample_settings\<lparr>AccessToken := ''tok-1''\<rparr>\<rparr>,
      sample_state
        \<lparr>ticks := 1, calls := [sample_token_request],
         files := (files sample_state)
           (''/cfg/pingen.json'' := Inr (sample_saved ''1700003600''))\<rparr>)"
proof -
  have a: "ensureAccessToken (sample_platform_expiring ''10000000000'') sample_state sample_ctx =
     (Inr ''tok-1'', sample_ctx\<lparr>settings := sample_settings\<lparr>AccessToken := ''tok-1''\<rparr>\<rparr>,
      sample_state
        \<lparr>ticks := 1, calls := [sample_token_request],
         files := (files sample_state)
           (''/cfg/pingen.json'' := Inr (sample_saved ''-6746744074''))\<rparr>)"
    unfolding sample_refresh [OF sample_body_decodes(2)] sample_expiry sample_text
    by (rule refl)
  have b: "ensureAccessToken (sample_platform_expiring ''3600'') sample_state sample_ctx =
     (Inr ''tok-1'', sample_ctx\<lparr>settings := sample_settings\<lparr>AccessToken := ''tok-1''\<rparr>\<rparr>,
      sample_state
        \<lparr>ticks := 1, calls := [sample_token_request],
         files := (files sample_state)
           (''/cfg/pingen.json'' := Inr (sample_saved ''1700003600''))\<rparr>)"
    unfolding sample_refresh [OF sample_body_decodes(1)] sample_expiry sample_text
    by (rule refl)
  have c: "time_Now (sample_platform_expiring ''10000000000'') (ticks sample_state) =
     \<lparr>unix_sec = 1700000000, nsec = 0\<rparr>"
    by (simp add: sample_platform_expiring_def sample_platform_def)
  have d: "configLoaded sample_ctx \<and> configPath sample_ctx = ''/cfg/pingen.json'' \<and>
     files sample_state ''/cfg/pingen.json'' = Inr ''{}''"
    by (simp add: sample_ctx_def sample_state_def)
  from a b c d show ?thesis by simp
qed

section \<open>Dry runs\<close>

lemma isAllowed_set: "isAllowed v allowed = (v \<in> set allowed)"
  by (induction allowed) auto

lemma printError_plain: "printError s message 0 [] = s\<lparr>stderr := stderr s @ [message]\<rparr>"
  by (simp add: printError_def)

text \<open>The checks of \<^verbatim>\<open>letters create\<close> and of \<^verbatim>\<open>letters send\<close>, one after the other.\<close>

lemma create_checks_closed:
  "create_checks p s ctx (cf, rest, perr) =
     (if OrganisationID (settings ctx) = [] then Inl (2, s\<lparr>stderr := stderr s @ [''organisation id required'']\<rparr>)
      else if perr \<noteq> None then Inl (2, s)
      else if helpFlag cf then Inl (0, s\<lparr>stdout := stdout s @ [create_usage]\<rparr>)
      else if filePath cf = [] then Inl (2, s\<lparr>stderr := stderr s @ [''--file is required'']\<rparr>)
      else if addressPos cf \<noteq> ''left'' \<and> addressPos cf \<noteq> ''right''
      then Inl (2, s\<lparr>stderr := stderr s @ [''address-position must be left or right'']\<rparr>)
      else if os_Stat p (filePath cf) \<noteq> None then Inl (2, s\<lparr>stderr := stderr s @ [''file not found'']\<rparr>)
      else
        (case loadJSONInput s (metaJSON cf) (metaFile cf) of
           Inl err \<Rightarrow> Inl (2, s\<lparr>stderr := stderr s @ [Error p err]\<rparr>)
         | Inr md \<Rightarrow>
             if deliveryProduct cf \<noteq> [] \<and> \<not> isAllowed (deliveryProduct cf) delivery_products
             then Inl (2, s\<lparr>stderr := stderr s @ [''invalid delivery-product'']\<rparr>)
             else if printMode cf \<noteq> [] \<and> \<not> isAllowed (printMode cf) print_modes
             then Inl (2, s\<lparr>stderr := stderr s @ [''invalid print-mode'']\<rparr>)
             else if printSpectrum cf \<noteq> [] \<and> \<not> isAllowed (printSpectrum cf) print_spectrums
             then Inl (2, s\<lparr>stderr := stderr s @ [''invalid print-spectrum'']\<rparr>)
             else Inr ([(''file_original_name'',
                         JString (if fileName cf = [] then DefaultFileName p (filePath cf) else fileName cf)),
                        (''address_position'', JString (addressPos cf)),
                        (''auto_send'', JBool (autoSend cf))] @
                       (if deliveryProduct cf = [] then []
                        else [(''delivery_product'', JString (deliveryProduct cf))]) @
                       (if printMode cf = [] then [] else [(''print_mode'', JString (printMode cf))]) @
                       (if printSpectrum cf = [] then []
                        else [(''print_spectrum'', JString (printSpectrum cf))]) @
                       (case md of None \<Rightarrow> [] | Some m \<Rightarrow> [(''meta_data'', JObject m)]),
                       if fileName cf = [] then DefaultFileName p (filePath cf) else fileName cf)))"
  by (cases "deliveryProduct cf = []"; cases "printMode cf = []"; cases "printSpectrum cf = []";
      cases "loadJSONInput s (metaJSON cf) (metaFile cf)")
    (simp_all add: create_checks_def Let_def printError_plain Println_def mput_def
      split: option.splits)


lemma handleLettersCreate_dry:
  assumes "dryRun (global ctx)"
  shows "handleLettersCreate p s ctx (cf, rest, perr) =
     (case create_checks p s ctx (cf, rest, perr) of
        Inl r \<Rightarrow> r
      | Inr (attributes, originalName) \<Rightarrow>
          emitJSON p s
            (JObject [(''action'', JString ''letters.create''),
                      (''file'', JString (filePath cf)),
                      (''organisation_id'', JString (OrganisationID (settings ctx))),
                      (''attributes'', JObject attributes)]))"
  using assms by (simp add: handleLettersCreate_def split: sum.splits)

lemma case_sum_if:
  "(case (if c then x else y) of Inl r \<Rightarrow> f r | Inr v \<Rightarrow> g v) =
     (if c then (case x of Inl r \<Rightarrow> f r | Inr v \<Rightarrow> g v) else (case y of Inl r \<Rightarrow> f r | Inr v \<Rightarrow> g v))"
  by simp

lemma case_sum_case_sum:
  "(case (case z of Inl e \<Rightarrow> x e | Inr m \<Rightarrow> y m) of Inl r \<Rightarrow> f r | Inr v \<Rightarrow> g v) =
     (case z of Inl e \<Rightarrow> (case x e of Inl r \<Rightarrow> f r | Inr v \<Rightarrow> g v)
              | Inr m \<Rightarrow> (case y m of Inl r \<Rightarrow> f r | Inr v \<Rightarrow> g v))"
  by (cases z) simp_all

lemma create_dry_closed:
  assumes "dryRun (global ctx)"
  shows "handleLettersCreate p s ctx (cf, rest, perr) =
     (if OrganisationID (settings ctx) = [] then (2, s\<lparr>stderr := stderr s @ [''organisation id required'']\<rparr>)
      else if perr \<noteq> None then (2, s)
      else if helpFlag cf then (0, s\<lparr>stdout := stdout s @ [create_usage]\<rparr>)
      else if filePath cf = [] then (2, s\<lparr>stderr := stderr s @ [''--file is required'']\<rparr>)
      else if addressPos cf \<noteq> ''left'' \<and> addressPos cf \<noteq> ''right''
      then (2, s\<lparr>stderr := stderr s @ [''address-position must be left or right'']\<rparr>)
      else if os_Stat p (filePath cf) \<noteq> None then (2, s\<lparr>stderr := stderr s @ [''file not found'']\<rparr>)
      else
        (case loadJSONInput s (metaJSON cf) (metaFile cf) of
           Inl err \<Rightarrow> (2, s\<lparr>stderr := stderr s @ [Error p err]\<rparr>)
         | Inr md \<Rightarrow>
             if deliveryProduct cf \<noteq> [] \<and> \<not> isAllowed (deliveryProduct cf) delivery_products
             then (2, s\<lparr>stderr := stderr s @ [''invalid delivery-product'']\<rparr>)
             else if printMode cf \<noteq> [] \<and> \<not> isAllowed (printMode cf) print_modes
             then (2, s\<lparr>stderr := stderr s @ [''invalid print-mode'']\<rparr>)
             else if printSpectrum cf \<noteq> [] \<and> \<not> isAllowed (printSpectrum cf) print_spectrums
             then (2, s\<lparr>stderr := stderr s @ [''invalid print-spectrum'']\<rparr>)
             else emitJSON p s
                    (JObject
                       [(''action'', JString ''letters.create''),
                        (''file'', JString (filePath cf)),
                        (''organisation_id'', JString (OrganisationID (settings ctx))),
                        (''attributes'',
                         JObject
                           ([(''file_original_name'',
                         JString (if fileName cf = [] then DefaultFileName p (filePath cf) else fileName cf)),
                        (''address_position'', JString (addressPos cf)),
                        (''auto_send'', JBool (autoSend cf))] @
                       (if deliveryProduct cf = [] then []
                        else [(''delivery_product'', JString (deliveryProduct cf))]) @
                       (if printMode cf = [] then [] else [(''print_mode'', JString (printMode cf))]) @
                       (if printSpectrum cf = [] then []
                        else [(''print_spectrum'', JString (printSpectrum cf))]) @
                       (case md of None \<Rightarrow> [] | Some m \<Rightarrow> [(''meta_data'', JObject m)])))])))"
  unfolding handleLettersCreate_dry [OF assms] create_checks_closed
  by (simp only: case_sum_if case_sum_case_sum sum.case prod.case)


lemma send_checks_closed:
  "send_checks p s ctx (sf, rest, perr) =
     (if OrganisationID (settings ctx) = [] then Inl (2, s\<lparr>stderr := stderr s @ [''organisation id required'']\<rparr>)
      else if perr \<noteq> None then Inl (2, s)
      else if helpFlag sf then Inl (0, s\<lparr>stdout := stdout s @ [send_usage]\<rparr>)
      else if rest = [] then Inl (2, s\<lparr>stderr := stderr s @ [''letter id required'']\<rparr>)
      else if deliveryProduct sf = [] \<or> printMode sf = [] \<or> printSpectrum sf = []
      then Inl (2, s\<lparr>stderr := stderr s @
                   [''delivery-product, print-mode, and print-spectrum are required'']\<rparr>)
      else if \<not> isAllowed (deliveryProduct sf) delivery_products
      then Inl (2, s\<lparr>stderr := stderr s @ [''invalid delivery-product'']\<rparr>)
      else if \<not> isAllowed (printMode sf) print_modes
      then Inl (2, s\<lparr>stderr := stderr s @ [''invalid print-mode'']\<rparr>)
      else if \<not> isAllowed (printSpectrum sf) print_spectrums
      then Inl (2, s\<lparr>stderr := stderr s @ [''invalid print-spectrum'']\<rparr>)
      else
        (case loadJSONInput s (metaJSON sf) (metaFile sf) of
           Inl err \<Rightarrow> Inl (2, s\<lparr>stderr := stderr s @ [Error p err]\<rparr>)
         | Inr md \<Rightarrow>
             Inr (hd rest,
                  [(''delivery_product'', JString (deliveryProduct sf)),
                   (''print_mode'', JString (printMode sf)),
                   (''print_spectrum'', JString (printSpectrum sf))] @
                  (case md of None \<Rightarrow> [] | Some m \<Rightarrow> [(''meta_data'', JObject m)]))))"
  by (cases rest; cases "loadJSONInput s (metaJSON sf) (metaFile sf)")
    (simp_all add: send_checks_def Let_def printError_plain Println_def mput_def
      split: option.splits)

lemma handleLettersSend_dry:
  assumes "dryRun (global ctx)"
  shows "handleLettersSend p s ctx (sf, rest, perr) =
     (case send_checks p s ctx (sf, rest, perr) of
        Inl r \<Rightarrow> r
      | Inr (letterID, attributes) \<Rightarrow>
          emitJSON p s
            (JObject [(''action'', JString ''letters.send''),
                      (''organisation_id'', JString (OrganisationID (settings ctx))),
                      (''letter_id'', JString letterID),
                      (''attributes'', JObject attributes)]))"
  using assms by (simp add: handleLettersSend_def split: sum.splits)

lemma send_dry_closed:
  assumes "dryRun (global ctx)"
  shows "handleLettersSend p s ctx (sf, rest, perr) =
     (if OrganisationID (settings ctx) = [] then (2, s\<lparr>stderr := stderr s @ [''organisation id required'']\<rparr>)
      else if perr \<noteq> None then (2, s)
      else if helpFlag sf then (0, s\<lparr>stdout := stdout s @ [send_usage]\<rparr>)
      else if rest = [] then (2, s\<lparr>stderr := stderr s @ [''letter id required'']\<rparr>)
      else if deliveryProduct sf = [] \<or> printMode sf = [] \<or> printSpectrum sf = []
      then (2, s\<lparr>stderr := stderr s @
                   [''delivery-product, print-mode, and print-spectrum are required'']\<rparr>)
      else if \<not> isAllowed (deliveryProduct sf) delivery_products
      then (2, s\<lparr>stderr := stderr s @ [''invalid delivery-product'']\<rparr>)
      else if \<not> isAllowed (printMode sf) print_modes
      then (2, s\<lparr>stderr := stderr s @ [''invalid print-mode'']\<rparr>)
      else if \<not> isAllowed (printSpectrum sf) print_spectrums
      then (2, s\<lparr>stderr := stderr s @ [''invalid print-spectrum'']\<rparr>)
      else
        (case loadJSONInput s (metaJSON sf) (metaFile sf) of
           Inl err \<Rightarrow> (2, s\<lparr>stderr := stderr s @ [Error p err]\<rparr>)
         | Inr md \<Rightarrow>
             emitJSON p s
               (JObject
                  [(''action'', JString ''letters.send''),
                   (''organisation_id'', JString (OrganisationID (settings ctx))),
                   (''letter_id'', JString (hd rest)),
                   (''attributes'',
                    JObject
                      ([(''delivery_product'', JString (deliveryProduct sf)),
                        (''print_mode'', JString (printMode sf)),
                        (''print_spectrum'', JString (printSpectrum sf))] @
                       (case md of None \<Rightarrow> [] | Some m \<Rightarrow> [(''meta_data'', JObject m)])))])))"
  unfolding handleLettersSend_dry [OF assms] send_checks_closed
  by (simp only: case_sum_if case_sum_case_sum sum.case prod.case)

lemma emitJSON_plain:
  "emitJSON p s v =
     (case MarshalIndent p v of
        Inl err \<Rightarrow> (1, s\<lparr>stderr := stderr s @ [''failed to encode json'']\<rparr>)
      | Inr encoded \<Rightarrow> (0, s\<lparr>stdout := stdout s @ [encoded]\<rparr>))"
  by (simp add: emitJSON_def printError_plain Println_def split: sum.splits)

lemma allowed_delivery:
  "(x \<notin> {''fast'', ''cheap'', ''bulk'', ''premium'', ''registered''}) =
     (\<not> isAllowed x delivery_products)"
  by (simp add: delivery_products_def)

lemma allowed_mode: "(x \<notin> {''simplex'', ''duplex''}) = (\<not> isAllowed x print_modes)"
  by (simp add: print_modes_def)

lemma allowed_spectrum: "(x \<notin> {''color'', ''grayscale''}) = (\<not> isAllowed x print_spectrums)"
  by (simp add: print_spectrums_def)

lemma optional_delivery:
  "(x \<notin> {[], ''fast'', ''cheap'', ''bulk'', ''premium'', ''registered''}) =
     (x \<noteq> [] \<and> \<not> isAllowed x delivery_products)"
  by (simp add: delivery_products_def)

lemma optional_mode: "(x \<notin> {[], ''simplex'', ''duplex''}) = (x \<noteq> [] \<and> \<not> isAllowed x print_modes)"
  by (simp add: print_modes_def)

lemma optional_spectrum:
  "(x \<notin> {[], ''color'', ''grayscale''}) = (x \<noteq> [] \<and> \<not> isAllowed x print_spectrums)"
  by (simp add: print_spectrums_def)

lemma address_position: "(x \<notin> {''left'', ''right''}) = (x \<noteq> ''left'' \<and> x \<noteq> ''right'')"
  by simp

lemma sample_meta_decodes: "Unmarshal_map sample_meta = Inr (Some [(''batch'', JString ''b-7'')])"
  by code_simp

lemma sample_meta_loads: "loadJSONInput s sample_meta [] = Inr (Some [(''batch'', JString ''b-7'')])"
proof -
  have "sample_meta \<noteq> []" and "\<not> HasPrefix sample_meta ''@''"
    by (simp_all add: sample_meta_def HasPrefix_def)
  then have "loadJSONInput s sample_meta [] = parseJSONObject sample_meta"
    by (simp add: loadJSONInput_def)
  then show ?thesis
    by (simp add: parseJSONObject_def sample_meta_decodes)
qed


lemma create_dry_calls:
  assumes "dryRun (global ctx)"
  shows "calls (snd (handleLettersCreate p s ctx (cf, rest, perr))) = calls s"
  unfolding create_dry_closed [OF assms(1)]
  by (simp add: emitJSON_calls split: sum.splits)

lemma send_dry_calls:
  assumes "dryRun (global ctx)"
  shows "calls (snd (handleLettersSend p s ctx (sf, rest, perr))) = calls s"
  unfolding send_dry_closed [OF assms(1)]
  by (simp add: emitJSON_calls split: sum.splits)

text \<open>
  C7. With the dry-run flag set, \<^verbatim>\<open>letters create\<close> and \<^verbatim>\<open>letters send\<close> send no request at
  all (so no token, upload slot, upload, create or send request), and they do the following.
  Each check of the local input is made, in the order of the code, and the first that fails
  ends the command with the exit code 2 and its message on the error stream: the organisation
  id, the parsing of the flags, for \<^verbatim>\<open>create\<close> the file argument, the address position, the
  presence of the file, the metadata, and the delivery product, print mode and print spectrum
  when given; for \<^verbatim>\<open>send\<close> the letter id, the three required options and their values, and
  the metadata. When all pass, the command prints the encoded preview object and exits with 0
  (with 1 if the encoder fails): the action, the file or the letter id, the organisation, and
  the attributes, which are the file name, address position and auto-send flag (for
  \<^verbatim>\<open>create\<close>), the delivery product, print mode and print spectrum that were given, and the
  metadata if there is any.
\<close>

theorem dry_run_no_network:
  fixes p :: platform and s :: state and ctx :: appContext
  assumes "dryRun (global ctx)"
  defines "org \<equiv> OrganisationID (settings ctx)"
  defines "stop \<equiv> \<lambda>message. (2 :: int, s\<lparr>stderr := stderr s @ [message]\<rparr>)"
  defines "preview \<equiv> \<lambda>v.
     (case MarshalIndent p v of
        Inl err \<Rightarrow> (1 :: int, s\<lparr>stderr := stderr s @ [''failed to encode json'']\<rparr>)
      | Inr encoded \<Rightarrow> (0, s\<lparr>stdout := stdout s @ [encoded]\<rparr>))"
  defines "given \<equiv> \<lambda>k v. if v = [] then [] else [(k, JString v)]"
  defines "meta \<equiv> \<lambda>md. case md of None \<Rightarrow> [] | Some m \<Rightarrow> [(''meta_data'', JObject m)]"
  shows
    "calls (snd (handleLettersCreate p s ctx (cf, rest, perr))) = calls s \<and>
     calls (snd (handleLettersSend p s ctx (sf, rest, perr))) = calls s \<and>
     handleLettersCreate p s ctx (cf, rest, perr) =
       (if org = [] then stop ''organisation id required''
        else if perr \<noteq> None then (2, s)
        else if helpFlag cf then (0, s\<lparr>stdout := stdout s @ [create_usage]\<rparr>)
        else if filePath cf = [] then stop ''--file is required''
        else if addressPos cf \<notin> {''left'', ''right''}
        then stop ''address-position must be left or right''
        else if os_Stat p (filePath cf) \<noteq> None then stop ''file not found''
        else
          (case loadJSONInput s (metaJSON cf) (metaFile cf) of
             Inl err \<Rightarrow> stop (Error p err)
           | Inr md \<Rightarrow>
               if deliveryProduct cf \<notin> {[], ''fast'', ''cheap'', ''bulk'', ''premium'', ''registered''}
               then stop ''invalid delivery-product''
               else if printMode cf \<notin> {[], ''simplex'', ''duplex''} then stop ''invalid print-mode''
               else if printSpectrum cf \<notin> {[], ''color'', ''grayscale''}
               then stop ''invalid print-spectrum''
               else preview
                      (JObject
                         [(''action'', JString ''letters.create''),
                          (''file'', JString (filePath cf)),
                          (''organisation_id'', JString org),
                          (''attributes'',
                           JObject
                             ([(''file_original_name'',
                                JString (if fileName cf = [] then DefaultFileName p (filePath cf)
                                         else fileName cf)),
                               (''address_position'', JString (addressPos cf)),
                               (''auto_send'', JBool (autoSend cf))] @
                              given ''delivery_product'' (deliveryProduct cf) @
                              given ''print_mode'' (printMode cf) @
                              given ''print_spectrum'' (printSpectrum cf) @
                              meta md))]))) \<and>
     handleLettersSend p s ctx (sf, rest, perr) =
       (if org = [] then stop ''organisation id required''
        else if perr \<noteq> None then (2, s)
        else if helpFlag sf then (0, s\<lparr>stdout := stdout s @ [send_usage]\<rparr>)
        else if rest = [] then stop ''letter id required''
        else if deliveryProduct sf = [] \<or> printMode sf = [] \<or> printSpectrum sf = []
        then stop ''delivery-product, print-mode, and print-spectrum are required''
        else if deliveryProduct sf \<notin> {''fast'', ''cheap'', ''bulk'', ''premium'', ''registered''}
        then stop ''invalid delivery-product''
        else if printMode sf \<notin> {''simplex'', ''duplex''} then stop ''invalid print-mode''
        else if printSpectrum sf \<notin> {''color'', ''grayscale''} then stop ''invalid print-spectrum''
        else
          (case loadJSONInput s (metaJSON sf) (metaFile sf) of
             Inl err \<Rightarrow> stop (Error p err)
           | Inr md \<Rightarrow>
               preview
                 (JObject
                    [(''action'', JString ''letters.send''),
                     (''organisation_id'', JString org),
                     (''letter_id'', JString (hd rest)),
                     (''attributes'',
                      JObject
                        ([(''delivery_product'', JString (deliveryProduct sf)),
                          (''print_mode'', JString (printMode sf)),
                          (''print_spectrum'', JString (printSpectrum sf))] @
                         meta md))])))"
proof -
  have c: "handleLettersCreate p s ctx (cf, rest, perr) =
       (if org = [] then stop ''organisation id required''
        else if perr \<noteq> None then (2, s)
        else if helpFlag cf then (0, s\<lparr>stdout := stdout s @ [create_usage]\<rparr>)
        else if filePath cf = [] then stop ''--file is required''
        else if addressPos cf \<notin> {''left'', ''right''}
        then stop ''address-position must be left or right''
        else if os_Stat p (filePath cf) \<noteq> None then stop ''file not found''
        else
          (case loadJSONInput s (metaJSON cf) (metaFile cf) of
             Inl err \<Rightarrow> stop (Error p err)
           | Inr md \<Rightarrow>
               if deliveryProduct cf \<notin> {[], ''fast'', ''cheap'', ''bulk'', ''premium'', ''registered''}
               then stop ''invalid delivery-product''
               else if printMode cf \<notin> {[], ''simplex'', ''duplex''} then stop ''invalid print-mode''
               else if printSpectrum cf \<notin> {[], ''color'', ''grayscale''}
               then stop ''invalid print-spectrum''
               else preview
                      (JObject
                         [(''action'', JString ''letters.create''),
                          (''file'', JString (filePath cf)),
                          (''organisation_id'', JString org),
                          (''attributes'',
                           JObject
                             ([(''file_original_name'',
                                JString (if fileName cf = [] then DefaultFileName p (filePath cf)
                                         else fileName cf)),
                               (''address_position'', JString (addressPos cf)),
                               (''auto_send'', JBool (autoSend cf))] @
                              given ''delivery_product'' (deliveryProduct cf) @
                              given ''print_mode'' (printMode cf) @
                              given ''print_spectrum'' (printSpectrum cf) @
                              meta md))])))"
    unfolding create_dry_closed [OF assms(1)] emitJSON_plain org_def stop_def preview_def given_def
      meta_def address_position optional_delivery optional_mode optional_spectrum
    by (rule refl)
  have d: "handleLettersSend p s ctx (sf, rest, perr) =
       (if org = [] then stop ''organisation id required''
        else if perr \<noteq> None then (2, s)
        else if helpFlag sf then (0, s\<lparr>stdout := stdout s @ [send_usage]\<rparr>)
        else if rest = [] then stop ''letter id required''
        else if deliveryProduct sf = [] \<or> printMode sf = [] \<or> printSpectrum sf = []
        then stop ''delivery-product, print-mode, and print-spectrum are required''
        else if deliveryProduct sf \<notin> {''fast'', ''cheap'', ''bulk'', ''premium'', ''registered''}
        then stop ''invalid delivery-product''
        else if printMode sf \<notin> {''simplex'', ''duplex''} then stop ''invalid print-mode''
        else if printSpectrum sf \<notin> {''color'', ''grayscale''} then stop ''invalid print-spectrum''
        else
          (case loadJSONInput s (metaJSON sf) (metaFile sf) of
             Inl err \<Rightarrow> stop (Error p err)
           | Inr md \<Rightarrow>
               preview
                 (JObject
                    [(''action'', JString ''letters.send''),
                     (''organisation_id'', JString org),
                     (''letter_id'', JString (hd rest)),
                     (''attributes'',
                      JObject
                        ([(''delivery_product'', JString (deliveryProduct sf)),
                          (''print_mode'', JString (printMode sf)),
                          (''print_spectrum'', JString (printSpectrum sf))] @
                         meta md))])))"
    unfolding send_dry_closed [OF assms(1)] emitJSON_plain org_def stop_def preview_def
      meta_def allowed_delivery allowed_mode allowed_spectrum
    by (rule refl)
  have cc: "calls (snd (handleLettersCreate p s ctx (cf, rest, perr))) = calls s"
    using assms(1) by (rule create_dry_calls)
  have dc: "calls (snd (handleLettersSend p s ctx (sf, rest, perr))) = calls s"
    using assms(1) by (rule send_dry_calls)
  from cc dc c d show ?thesis by (intro conjI)
qed


theorem dry_run_no_network_witness:
  \<open>handleLettersCreate sample_platform sample_state sample_dry_ctx
       (sample_create, [''letter-9''], None) =
     (0, sample_state\<lparr>stdout :=
        [''{"action":"letters.create","file":"doc.pdf","organisation_id":"org-1",'' @
         ''"attributes":{"file_original_name":"doc.pdf","address_position":"left",'' @
         ''"auto_send":false,"delivery_product":"cheap","meta_data":{"batch":"b-7"}}}'']\<rparr>) \<and>
   handleLettersSend sample_platform sample_state sample_dry_ctx
       (sample_send, [''letter-9''], None) =
     (0, sample_state\<lparr>stdout :=
        [''{"action":"letters.send","organisation_id":"org-1","letter_id":"letter-9",'' @
         ''"attributes":{"delivery_product":"cheap","print_mode":"simplex",'' @
         ''"print_spectrum":"color"}}'']\<rparr>) \<and>
   handleLettersCreate sample_platform sample_state sample_dry_ctx
       (sample_create\<lparr>deliveryProduct := ''express''\<rparr>, [''letter-9''], None) =
     (2, sample_state\<lparr>stderr := [''invalid delivery-product'']\<rparr>) \<and>
   handleLettersSend sample_platform sample_state sample_dry_ctx
       (sample_send\<lparr>printMode := []\<rparr>, [''letter-9''], None) =
     (2, sample_state\<lparr>stderr :=
        [''delivery-product, print-mode, and print-spectrum are required'']\<rparr>) \<and>
   calls (snd (handleLettersCreate sample_platform sample_state sample_dry_ctx
       (sample_create, [''letter-9''], None))) = [] \<and>
   calls (snd (handleLettersSend sample_platform sample_state sample_dry_ctx
       (sample_send, [''letter-9''], None))) = []\<close>
proof -
  have dry: "dryRun (global sample_dry_ctx)"
    by (simp add: sample_dry_ctx_def)
  note a = dry_run_no_network [where ctx = sample_dry_ctx and p = sample_platform
      and s = sample_state and cf = sample_create and sf = sample_send
      and rest = "[''letter-9'']" and perr = None, OF dry]
  note b = dry_run_no_network [where ctx = sample_dry_ctx and p = sample_platform
      and s = sample_state and cf = "sample_create\<lparr>deliveryProduct := ''express''\<rparr>"
      and sf = "sample_send\<lparr>printMode := []\<rparr>"
      and rest = "[''letter-9'']" and perr = None, OF dry]
  note defs = sample_dry_ctx_def sample_create_def sample_send_def sample_meta_loads
      loadJSONInput_neither sample_defs DefaultFileName_def sample_quote_def
  have 1: "calls sample_state = []"
    by (simp add: sample_state_def)
  show ?thesis
    apply (intro conjI)
         apply (subst a [THEN conjunct2, THEN conjunct2, THEN conjunct1], simp add: defs)
        apply (subst a [THEN conjunct2, THEN conjunct2, THEN conjunct2], simp add: defs)
       apply (subst b [THEN conjunct2, THEN conjunct2, THEN conjunct1], simp add: defs)
      apply (subst b [THEN conjunct2, THEN conjunct2, THEN conjunct2], simp add: defs)
     apply (simp only: a [THEN conjunct1] 1)
    apply (simp only: a [THEN conjunct2, THEN conjunct1] 1)
    done
qed

end
